theory Spec2Isabelle
  imports Main "HOL-Library.Word"
begin

unbundle bit_operations_syntax

section \<open>The ESP packet engine of esp_packet.c\<close>

text \<open>
  A shallow embedding of \<^verbatim>\<open>esp_packet.c\<close>: the container
  \<^verbatim>\<open>private_esp_packet_t\<close>, the padding helpers and the two pipelines
  \<^verbatim>\<open>encrypt\<close> and \<^verbatim>\<open>decrypt\<close>.

  Conventions.
  \<^item> A \<^verbatim>\<open>chunk_t\<close> is the list of its bytes; its \<^verbatim>\<open>len\<close> is the length
    of the list. Lengths (\<^verbatim>\<open>size_t\<close>) are natural numbers: they are lengths of
    buffers that exist in memory, so the sums the code forms over them stay far below
    the range of \<^verbatim>\<open>size_t\<close>. The narrowing casts to \<^verbatim>\<open>u_int8_t\<close> and the
    32-bit sequence numbers are words and wrap as in C.
  \<^item> A status is returned together with the updated container and the updated ESP
    context (state passing).
  \<^item> \<^verbatim>\<open>x % blocksize\<close> with a block size of zero is undefined in C. Both pipelines
    return \<open>None\<close> at the point where the code would divide by zero, and
    \<open>Some\<close> of their result otherwise.
  \<^item> The crypter, the signer and the random number generator are interfaces of the
    library; they are parameters of the model (records of functions).
\<close>

subsection \<open>Basic types\<close>

type_synonym u_int8_t = "8 word"
type_synonym u_int32_t = "32 word"
type_synonym chunk_t = "u_int8_t list"

text \<open>\<^verbatim>\<open>enum status_t\<close> of utils.h, in the order of the enumeration.\<close>

datatype status_t =
    SUCCESS | FAILED | OUT_OF_RES | ALREADY_DONE | NOT_SUPPORTED | INVALID_ARG
  | NOT_FOUND | PARSE_ERROR | VERIFY_ERROR | INVALID_STATE | DESTROY_ME | NEED_MORE

text \<open>The protocol numbers of \<^verbatim>\<open>netinet/in.h\<close> that the file uses.\<close>

definition IPPROTO_IPIP :: u_int8_t where "IPPROTO_IPIP = 4"
definition IPPROTO_IPV6 :: u_int8_t where "IPPROTO_IPV6 = 41"
definition IPPROTO_NONE :: u_int8_t where "IPPROTO_NONE = 59"

text \<open>
  \<^verbatim>\<open>memwipe\<close> of utils.h: the first \<open>n\<close> bytes of the buffer are overwritten
  with zero (its three loops together store a zero at every index below \<open>n\<close>).
\<close>

definition memwipe :: "chunk_t \<Rightarrow> nat \<Rightarrow> chunk_t" where
  "memwipe buf n = replicate (min n (length buf)) 0 @ drop n buf"

subsection \<open>Byte order\<close>

text \<open>
  The four bytes of a 32-bit value in network order (what \<^verbatim>\<open>htoun32\<close> of utils.h
  stores), and the value of four bytes in network order.
\<close>

definition be32 :: "u_int32_t \<Rightarrow> chunk_t" where
  "be32 v = [ucast (drop_bit 24 v), ucast (drop_bit 16 v), ucast (drop_bit 8 v), ucast v]"

definition from_be32 :: "chunk_t \<Rightarrow> u_int32_t" where
  "from_be32 bs =
     (push_bit 24 (ucast (bs ! 0)) OR push_bit 16 (ucast (bs ! 1))
      OR push_bit 8 (ucast (bs ! 2)) OR ucast (bs ! 3))"

text \<open>
  The bytes of a 32-bit value as the host stores it, and \<^verbatim>\<open>ntohl\<close>/\<^verbatim>\<open>htonl\<close>:
  the identity on a big-endian host, a byte swap on a little-endian one.
\<close>

definition host_bytes :: "bool \<Rightarrow> u_int32_t \<Rightarrow> chunk_t" where
  "host_bytes little_endian v = (if little_endian then rev (be32 v) else be32 v)"

definition ntohl :: "bool \<Rightarrow> u_int32_t \<Rightarrow> u_int32_t" where
  "ntohl little_endian v = from_be32 (host_bytes little_endian v)"

definition htonl :: "bool \<Rightarrow> u_int32_t \<Rightarrow> u_int32_t" where
  "htonl little_endian v = ntohl little_endian v"

subsection \<open>Collaborators\<close>

text \<open>
  Modelled from the spec: bio_reader.c is not among the sources. A reader is the chunk
  of the bytes that remain; every read fails (\<open>None\<close>) when fewer bytes remain than it
  needs, reads from the front consume from the front, the \<^verbatim>\<open>_end\<close> variants consume
  from the end.
\<close>

type_synonym bio_reader_t = chunk_t

definition bio_reader_create :: "chunk_t \<Rightarrow> bio_reader_t" where
  "bio_reader_create data = data"

definition read_uint32 :: "bio_reader_t \<Rightarrow> (u_int32_t \<times> bio_reader_t) option" where
  "read_uint32 r = (if length r < 4 then None else Some (from_be32 (take 4 r), drop 4 r))"

definition read_data :: "bio_reader_t \<Rightarrow> nat \<Rightarrow> (chunk_t \<times> bio_reader_t) option" where
  "read_data r n = (if length r < n then None else Some (take n r, drop n r))"

definition read_data_end :: "bio_reader_t \<Rightarrow> nat \<Rightarrow> (chunk_t \<times> bio_reader_t) option" where
  "read_data_end r n =
     (if length r < n then None else Some (drop (length r - n) r, take (length r - n) r))"

definition read_uint8_end :: "bio_reader_t \<Rightarrow> (u_int8_t \<times> bio_reader_t) option" where
  "read_uint8_end r = (if length r < 1 then None else Some (last r, butlast r))"

definition remaining :: "bio_reader_t \<Rightarrow> nat" where
  "remaining r = length r"

definition peek :: "bio_reader_t \<Rightarrow> chunk_t" where
  "peek r = r"

text \<open>
  Modelled from the spec: bio_writer.c is not among the sources. A writer is the chunk
  of the bytes written so far (\<^verbatim>\<open>get_buf\<close>); every write appends.
  \<^verbatim>\<open>skip\<close> reserves a region that the caller fills in place: the model appends the
  bytes the caller stores there.
\<close>

type_synonym bio_writer_t = chunk_t

definition write_uint32 :: "bio_writer_t \<Rightarrow> u_int32_t \<Rightarrow> bio_writer_t" where
  "write_uint32 w v = w @ be32 v"

definition write_uint8 :: "bio_writer_t \<Rightarrow> u_int8_t \<Rightarrow> bio_writer_t" where
  "write_uint8 w v = w @ [v]"

definition write_data :: "bio_writer_t \<Rightarrow> chunk_t \<Rightarrow> bio_writer_t" where
  "write_data w d = w @ d"

text \<open>
  The crypter interface (crypter.h is not among the sources; it is a parameter).
  \<^verbatim>\<open>encrypt\<close> with a \<^verbatim>\<open>NULL\<close> destination works in place, \<^verbatim>\<open>decrypt\<close>
  with a destination allocates the plaintext; \<open>None\<close> is the return value
  \<^verbatim>\<open>FALSE\<close>. Both take the data and the IV.
\<close>

record crypter_t =
  crypter_get_block_size :: nat
  crypter_get_iv_size :: nat
  crypter_encrypt :: "chunk_t \<Rightarrow> chunk_t \<Rightarrow> chunk_t option"
  crypter_decrypt :: "chunk_t \<Rightarrow> chunk_t \<Rightarrow> chunk_t option"

text \<open>
  The signer interface (signer.h is not among the sources; it is a parameter). A call
  of \<^verbatim>\<open>get_signature\<close> with a \<^verbatim>\<open>NULL\<close> buffer only appends its data to the
  signer's input; the call that passes a buffer, and \<^verbatim>\<open>verify_signature\<close>, finish
  the computation over everything appended. The two functions of the model take the
  whole input, the slices concatenated in call order; \<open>None\<close> and \<open>False\<close> are the
  return value \<^verbatim>\<open>FALSE\<close> of any of the calls.
\<close>

record signer_t =
  signer_get_block_size :: nat
  signer_get_signature :: "chunk_t \<Rightarrow> chunk_t option"
  signer_verify_signature :: "chunk_t \<Rightarrow> chunk_t \<Rightarrow> bool"

text \<open>
  The random number generator (rng.h is not among the sources; it is a parameter):
  \<^verbatim>\<open>get_bytes\<close> fills a buffer of the requested length, or returns \<^verbatim>\<open>FALSE\<close>
  (\<open>None\<close>). \<^verbatim>\<open>lib\<close> holds what the file takes from its environment: the
  byte order of the host and the result of \<^verbatim>\<open>lib->crypto->create_rng\<close>,
  which is \<^verbatim>\<open>NULL\<close> (\<open>None\<close>) when no generator is registered.
\<close>

record rng_t =
  rng_get_bytes :: "nat \<Rightarrow> chunk_t option"

record lib_t =
  little_endian :: bool
  create_rng :: "rng_t option"

text \<open>
  Modelled from the spec: ip_packet.c is not among the sources. The constructor from
  bytes validates the first nibble: IPv4 if it is 4, IPv6 if it is 6, and no packet
  otherwise.
\<close>

record ip_packet_t =
  get_encoding :: chunk_t
  get_version :: u_int8_t

definition ip_packet_create :: "chunk_t \<Rightarrow> ip_packet_t option" where
  "ip_packet_create packet =
     (case packet of
        [] \<Rightarrow> None
      | b # _ \<Rightarrow>
          (if drop_bit 4 b = 4 then Some \<lparr>get_encoding = packet, get_version = 4\<rparr>
           else if drop_bit 4 b = 6 then Some \<lparr>get_encoding = packet, get_version = 6\<rparr>
           else None))"

text \<open>
  Modelled from the spec: esp_context.c is not among the sources. The context holds the
  crypter and the signer of the SA and the anti-replay state of section 4.6: the highest
  sequence number and a bitmap of \<open>window_size\<close> bits, bit \<open>i\<close> standing for the
  sequence number \<open>highest - i\<close>.
  \<^item> \<^verbatim>\<open>next_seqno\<close> (the egress cursor) returns \<open>highest + 1\<close> and stores it, and
    fails when \<open>highest\<close> is \<open>0xFFFFFFFF\<close>;
  \<^item> \<^verbatim>\<open>verify_seqno\<close> (the spec's check) holds iff the number is not zero and either
    above \<open>highest\<close>, or less than \<open>window_size\<close> below it with its bit clear;
  \<^item> \<^verbatim>\<open>set_authenticated_seqno\<close> (the spec's commit) shifts the bitmap left by
    \<open>seq - highest\<close>, sets the bit of the new highest and stores it when the number is
    above \<open>highest\<close>, and sets the bit at \<open>highest - seq\<close> otherwise.
\<close>

record esp_context_t =
  get_crypter :: crypter_t
  get_signer :: signer_t
  highest :: u_int32_t
  bitmap :: nat
  window_size :: nat

definition next_seqno :: "esp_context_t \<Rightarrow> (u_int32_t \<times> esp_context_t) option" where
  "next_seqno ctx =
     (if highest ctx = 0xFFFFFFFF then None
      else Some (highest ctx + 1, ctx\<lparr>highest := highest ctx + 1\<rparr>))"

definition verify_seqno :: "esp_context_t \<Rightarrow> u_int32_t \<Rightarrow> bool" where
  "verify_seqno ctx seq \<longleftrightarrow>
     seq \<noteq> 0 \<and>
     (seq > highest ctx \<or>
      (unat (highest ctx - seq) < window_size ctx \<and>
       \<not> bit (bitmap ctx) (unat (highest ctx - seq))))"

definition set_authenticated_seqno :: "esp_context_t \<Rightarrow> u_int32_t \<Rightarrow> esp_context_t" where
  "set_authenticated_seqno ctx seq =
     (if seq > highest ctx
      then ctx\<lparr>bitmap :=
                 set_bit 0 (take_bit (window_size ctx)
                   (push_bit (unat (seq - highest ctx)) (bitmap ctx))),
               highest := seq\<rparr>
      else ctx\<lparr>bitmap := set_bit (unat (highest ctx - seq)) (bitmap ctx)\<rparr>)"

subsection \<open>The container\<close>

text \<open>
  \<^verbatim>\<open>packet_t\<close> (packet.c is not among the sources; only its accessors are used):
  two endpoints and the raw data. A host is its address bytes and port.
\<close>

type_synonym host_t = "chunk_t \<times> nat"

record packet_t =
  pkt_source :: host_t
  pkt_destination :: host_t
  pkt_data :: chunk_t

definition packet_create_from_data :: "host_t \<Rightarrow> host_t \<Rightarrow> chunk_t \<Rightarrow> packet_t" where
  "packet_create_from_data src dst d = \<lparr>pkt_source = src, pkt_destination = dst, pkt_data = d\<rparr>"

text \<open>\<^verbatim>\<open>struct private_esp_packet_t\<close>; a \<^verbatim>\<open>NULL\<close> payload is \<open>None\<close>.\<close>

record private_esp_packet_t =
  packet :: packet_t
  payload :: "ip_packet_t option"
  next_header :: u_int8_t

definition get_data :: "private_esp_packet_t \<Rightarrow> chunk_t" where
  "get_data this = pkt_data (packet this)"

definition set_data :: "private_esp_packet_t \<Rightarrow> chunk_t \<Rightarrow> private_esp_packet_t" where
  "set_data this d = this\<lparr>packet := (packet this)\<lparr>pkt_data := d\<rparr>\<rparr>"

definition get_source :: "private_esp_packet_t \<Rightarrow> host_t" where
  "get_source this = pkt_source (packet this)"

definition get_destination :: "private_esp_packet_t \<Rightarrow> host_t" where
  "get_destination this = pkt_destination (packet this)"

definition get_next_header :: "private_esp_packet_t \<Rightarrow> u_int8_t" where
  "get_next_header this = next_header this"

definition get_payload :: "private_esp_packet_t \<Rightarrow> ip_packet_t option" where
  "get_payload this = payload this"

definition extract_payload ::
  "private_esp_packet_t \<Rightarrow> ip_packet_t option \<times> private_esp_packet_t" where
  "extract_payload this = (payload this, this\<lparr>payload := None\<rparr>)"

definition esp_packet_create_internal :: "packet_t \<Rightarrow> private_esp_packet_t" where
  "esp_packet_create_internal p = \<lparr>packet = p, payload = None, next_header = IPPROTO_NONE\<rparr>"

definition esp_packet_create_from_packet :: "packet_t \<Rightarrow> private_esp_packet_t" where
  "esp_packet_create_from_packet p = esp_packet_create_internal p"

definition esp_packet_create_from_payload ::
  "host_t \<Rightarrow> host_t \<Rightarrow> ip_packet_t option \<Rightarrow> private_esp_packet_t" where
  "esp_packet_create_from_payload src dst pl =
     (let this = (esp_packet_create_internal (packet_create_from_data src dst []))
                   \<lparr>payload := pl\<rparr>
      in case pl of
           Some p \<Rightarrow>
             this\<lparr>next_header := (if get_version p = 4 then IPPROTO_IPIP else IPPROTO_IPV6)\<rparr>
         | None \<Rightarrow> this\<lparr>next_header := IPPROTO_NONE\<rparr>)"

subsection \<open>Padding\<close>

text \<open>
  \<^verbatim>\<open>check_padding\<close>: the loop over \<open>i = 0, 1, ...\<close> returns \<^verbatim>\<open>FALSE\<close> at the
  first byte that differs from \<^verbatim>\<open>(u_int8_t)(i + 1)\<close>. \<open>check_padding_from i\<close> is the
  loop from index \<open>i\<close> on, over the bytes not yet visited.
\<close>

fun check_padding_from :: "nat \<Rightarrow> chunk_t \<Rightarrow> bool" where
  "check_padding_from i [] = True"
| "check_padding_from i (b # bs) =
     (if b \<noteq> (of_nat (i + 1) :: u_int8_t) then False else check_padding_from (i + 1) bs)"

definition check_padding :: "chunk_t \<Rightarrow> bool" where
  "check_padding padding = check_padding_from 0 padding"

text \<open>
  \<^verbatim>\<open>generate_padding\<close>: the loop stores \<^verbatim>\<open>(u_int8_t)(i + 1)\<close> at every index
  \<open>i\<close> of the region; \<open>generate_padding_from i n\<close> are the \<open>n\<close> bytes stored from
  index \<open>i\<close> on.
\<close>

fun generate_padding_from :: "nat \<Rightarrow> nat \<Rightarrow> chunk_t" where
  "generate_padding_from i 0 = []"
| "generate_padding_from i (Suc n) = (of_nat (i + 1) :: u_int8_t) # generate_padding_from (i + 1) n"

definition generate_padding :: "nat \<Rightarrow> chunk_t" where
  "generate_padding len = generate_padding_from 0 len"

subsection \<open>The plaintext buffer\<close>

text \<open>
  \<^verbatim>\<open>crypter->decrypt\<close> allocates the plaintext. To follow what happens to that
  buffer it is kept as its bytes and its allocation state. chunk.h is not among the
  sources; \<^verbatim>\<open>chunk_free\<close> is taken as what its name says, the release of the
  allocation, which stores nothing into it. Overwriting is a separate facility of the
  library (\<^verbatim>\<open>memwipe\<close> of utils.h, above), which esp_packet.c never calls.
\<close>

datatype alloc_state = Allocated | Freed

record heap_chunk =
  bytes :: chunk_t
  alloc :: alloc_state

definition chunk_free :: "heap_chunk \<Rightarrow> heap_chunk" where
  "chunk_free c = c\<lparr>alloc := Freed\<rparr>"

subsection \<open>Decryption\<close>

text \<open>
  \<^verbatim>\<open>remove_padding\<close>. The two trailing bytes are the next header and the pad length,
  read from the end; then \<open>pad_length\<close> bytes of padding are read from the end and
  checked. Both failures jump to \<^verbatim>\<open>failed\<close>, which frees the plaintext. What
  remains is handed to \<^verbatim>\<open>ip_packet_create\<close>; when that returns \<^verbatim>\<open>NULL\<close> the
  function returns \<^verbatim>\<open>FALSE\<close> without touching the plaintext again. The result is
  the return value, the container and the plaintext buffer.
\<close>

definition remove_padding ::
  "private_esp_packet_t \<Rightarrow> chunk_t \<Rightarrow> bool \<times> private_esp_packet_t \<times> heap_chunk" where
  "remove_padding this plaintext =
     (let buf = \<lparr>bytes = plaintext, alloc = Allocated\<rparr>;
          reader = bio_reader_create plaintext
      in case read_uint8_end reader of
           None \<Rightarrow> (False, this, chunk_free buf)
         | Some (nh, reader) \<Rightarrow>
        (case read_uint8_end reader of
           None \<Rightarrow> (False, this, chunk_free buf)
         | Some (pad_length, reader) \<Rightarrow>
        (case read_data_end reader (unat pad_length) of
           None \<Rightarrow> (False, this, chunk_free buf)
         | Some (padding, reader) \<Rightarrow>
             if \<not> check_padding padding then (False, this, chunk_free buf)
             else
               (let this = this\<lparr>payload := ip_packet_create (peek reader)\<rparr>
                in if payload this = None then (False, this, buf)
                   else (True, this\<lparr>next_header := nh\<rparr>, buf)))))"

text \<open>
  The length checks at the head of \<^verbatim>\<open>decrypt\<close>: SPI, sequence number and IV are
  read from the front, the ICV from the end, and what remains must be a multiple of the
  block size. The \<^verbatim>\<open>||\<close> chain evaluates left to right, so the division is reached
  only when the four reads succeeded. \<open>None\<close>: division by zero; \<open>Some None\<close>: the
  branch that returns \<^verbatim>\<open>PARSE_ERROR\<close>; otherwise SPI, sequence number, IV, ICV and
  ciphertext.
\<close>

definition decrypt_read ::
  "crypter_t \<Rightarrow> signer_t \<Rightarrow> chunk_t \<Rightarrow>
   (u_int32_t \<times> u_int32_t \<times> chunk_t \<times> chunk_t \<times> chunk_t) option option" where
  "decrypt_read crypter signer d =
     (let reader = bio_reader_create d
      in case read_uint32 reader of
           None \<Rightarrow> Some None
         | Some (spi, reader) \<Rightarrow>
        (case read_uint32 reader of
           None \<Rightarrow> Some None
         | Some (seq, reader) \<Rightarrow>
        (case read_data reader (crypter_get_iv_size crypter) of
           None \<Rightarrow> Some None
         | Some (iv, reader) \<Rightarrow>
        (case read_data_end reader (signer_get_block_size signer) of
           None \<Rightarrow> Some None
         | Some (icv, reader) \<Rightarrow>
             if crypter_get_block_size crypter = 0 then None
             else if remaining reader mod crypter_get_block_size crypter \<noteq> 0 then Some None
             else Some (Some (spi, seq, iv, icv, peek reader))))))"

text \<open>
  \<^verbatim>\<open>decrypt\<close>. The result is the status, the container, the ESP context and the
  plaintext buffer (\<open>None\<close> when none was allocated). The signature is taken over
  the first eight bytes of the data, then the IV, then the ciphertext.
\<close>

definition decrypt ::
  "private_esp_packet_t \<Rightarrow> esp_context_t \<Rightarrow>
   (status_t \<times> private_esp_packet_t \<times> esp_context_t \<times> heap_chunk option) option" where
  "decrypt this0 esp_context =
     (let this = this0\<lparr>payload := None\<rparr>;
          d = get_data this;
          crypter = get_crypter esp_context;
          signer = get_signer esp_context
      in case decrypt_read crypter signer d of
           None \<Rightarrow> None
         | Some None \<Rightarrow> Some (PARSE_ERROR, this, esp_context, None)
         | Some (Some (spi, seq, iv, icv, ciphertext)) \<Rightarrow>
             if \<not> verify_seqno esp_context seq
             then Some (VERIFY_ERROR, this, esp_context, None)
             else if \<not> signer_verify_signature signer (take 8 d @ iv @ ciphertext) icv
             then Some (FAILED, this, esp_context, None)
             else
               (let esp_context = set_authenticated_seqno esp_context seq
                in case crypter_decrypt crypter ciphertext iv of
                     None \<Rightarrow> Some (FAILED, this, esp_context, None)
                   | Some plaintext \<Rightarrow>
                       (case remove_padding this plaintext of
                          (False, this, buf) \<Rightarrow> Some (PARSE_ERROR, this, esp_context, Some buf)
                        | (True, this, buf) \<Rightarrow> Some (SUCCESS, this, esp_context, Some buf))))"

text \<open>
  \<^verbatim>\<open>parse_header\<close>: reads SPI and sequence number and returns the SPI in network
  order.
\<close>

definition parse_header :: "lib_t \<Rightarrow> private_esp_packet_t \<Rightarrow> u_int32_t option" where
  "parse_header lib this =
     (case read_uint32 (bio_reader_create (get_data this)) of
        None \<Rightarrow> None
      | Some (spi, reader) \<Rightarrow>
          (case read_uint32 reader of
             None \<Rightarrow> None
           | Some (seq, reader) \<Rightarrow> Some (htonl (little_endian lib) spi)))"

subsection \<open>Encryption\<close>

text \<open>
  The length of the padding and of the plaintext: \<^verbatim>\<open>plainlen = payload.len + 2\<close>,
  \<^verbatim>\<open>padding.len = blocksize - (plainlen % blocksize)\<close>,
  \<^verbatim>\<open>plainlen += padding.len\<close>.
\<close>

definition padding_len :: "nat \<Rightarrow> nat \<Rightarrow> nat" where
  "padding_len blocksize payload_len = blocksize - ((payload_len + 2) mod blocksize)"

definition plainlen :: "nat \<Rightarrow> nat \<Rightarrow> nat" where
  "plainlen blocksize payload_len = payload_len + 2 + padding_len blocksize payload_len"

text \<open>
  The payload that \<^verbatim>\<open>encrypt\<close> encodes: the encoding of the inner packet, or the
  empty chunk when the container has none.
\<close>

definition encrypt_payload :: "private_esp_packet_t \<Rightarrow> chunk_t" where
  "encrypt_payload this = (case payload this of Some p \<Rightarrow> get_encoding p | None \<Rightarrow> [])"

text \<open>
  What \<^verbatim>\<open>encrypt\<close> writes between the IV and the ICV before it encrypts: the payload,
  the padding, the pad length narrowed to a byte, the next header.
\<close>

definition encrypt_plaintext :: "nat \<Rightarrow> chunk_t \<Rightarrow> u_int8_t \<Rightarrow> chunk_t" where
  "encrypt_plaintext blocksize pl nh =
     (let writer = write_data [] pl;
          writer = writer @ generate_padding (padding_len blocksize (length pl));
          writer = write_uint8 writer (of_nat (padding_len blocksize (length pl)));
          writer = write_uint8 writer nh
      in writer)"

text \<open>
  \<^verbatim>\<open>encrypt\<close>. The result is the status, the container and the ESP context. The data
  of the container is set to the empty chunk first and to the finished buffer last;
  every failure in between returns with the writer's buffer destroyed.
\<close>

definition encrypt ::
  "lib_t \<Rightarrow> private_esp_packet_t \<Rightarrow> esp_context_t \<Rightarrow> u_int32_t \<Rightarrow>
   (status_t \<times> private_esp_packet_t \<times> esp_context_t) option" where
  "encrypt lib this0 esp_context0 spi =
     (let this = set_data this0 []
      in case next_seqno esp_context0 of
           None \<Rightarrow> Some (FAILED, this, esp_context0)
         | Some (seqno, esp_context) \<Rightarrow>
        (case create_rng lib of
           None \<Rightarrow> Some (NOT_FOUND, this, esp_context)
         | Some rng \<Rightarrow>
             (let crypter = get_crypter esp_context;
                  signer = get_signer esp_context;
                  blocksize = crypter_get_block_size crypter;
                  iv_len = crypter_get_iv_size crypter;
                  pl = encrypt_payload this
              in if blocksize = 0 then None
                 else
                   (let writer = write_uint32 [] (ntohl (little_endian lib) spi);
                        writer = write_uint32 writer seqno
                    in case rng_get_bytes rng iv_len of
                         None \<Rightarrow> Some (FAILED, this, esp_context)
                       | Some iv \<Rightarrow>
                           (let writer = writer @ iv;
                                plain = encrypt_plaintext blocksize pl (next_header this)
                            in case crypter_encrypt crypter plain iv of
                                 None \<Rightarrow> Some (FAILED, this, esp_context)
                               | Some ciphertext \<Rightarrow>
                                   (let writer = writer @ ciphertext;
                                        auth_data = writer
                                    in case signer_get_signature signer auth_data of
                                         None \<Rightarrow> Some (FAILED, this, esp_context)
                                       | Some icv \<Rightarrow>
                                           Some (SUCCESS, set_data this (writer @ icv),
                                                 esp_context)))))))"

subsection \<open>Contracts of the primitives\<close>

text \<open>
  What the pipelines rely on in their collaborators, one predicate for each fact:
  in-place encryption returns as many bytes as it was given; decryption inverts
  encryption under the same IV; decryption returns a plaintext as long as the
  ciphertext; a signature has the signer's block size as its length; a signature
  verifies over the input it was computed from; the generator fills the whole buffer
  it was given.
\<close>

definition crypter_in_place :: "crypter_t \<Rightarrow> bool" where
  "crypter_in_place c \<longleftrightarrow>
     (\<forall>d iv e. crypter_encrypt c d iv = Some e \<longrightarrow> length e = length d)"

definition crypter_inverse :: "crypter_t \<Rightarrow> bool" where
  "crypter_inverse c \<longleftrightarrow>
     (\<forall>d iv e. crypter_encrypt c d iv = Some e \<longrightarrow> crypter_decrypt c e iv = Some d)"

definition decrypter_contract :: "crypter_t \<Rightarrow> bool" where
  "decrypter_contract c \<longleftrightarrow>
     (\<forall>d iv p. crypter_decrypt c d iv = Some p \<longrightarrow> length p = length d)"

definition signer_size :: "signer_t \<Rightarrow> bool" where
  "signer_size s \<longleftrightarrow>
     (\<forall>d sig. signer_get_signature s d = Some sig \<longrightarrow> length sig = signer_get_block_size s)"

definition signer_verifies :: "signer_t \<Rightarrow> bool" where
  "signer_verifies s \<longleftrightarrow>
     (\<forall>d sig. signer_get_signature s d = Some sig \<longrightarrow> signer_verify_signature s d sig)"

definition rng_contract :: "rng_t \<Rightarrow> bool" where
  "rng_contract r \<longleftrightarrow> (\<forall>n bs. rng_get_bytes r n = Some bs \<longrightarrow> length bs = n)"

subsection \<open>Test vectors\<close>

text \<open>
  Small primitives on which the pipelines can be run: a crypter with block size 4 and
  IV size 2 that XORs every byte with \<open>0x5A\<close>, a signer whose two-byte signature is
  the byte sum and the length of its input, a generator that returns sevens, a fresh
  context over a window of 64, and inner packets of five bytes.
\<close>

definition xor_crypter :: crypter_t where
  "xor_crypter =
     \<lparr>crypter_get_block_size = 4, crypter_get_iv_size = 2,
      crypter_encrypt = (\<lambda>d iv. Some (map (\<lambda>b. b XOR 0x5A) d)),
      crypter_decrypt = (\<lambda>d iv. Some (map (\<lambda>b. b XOR 0x5A) d))\<rparr>"

definition sum_mac :: "chunk_t \<Rightarrow> chunk_t" where
  "sum_mac d = [foldr (+) d 0, of_nat (length d)]"

definition sum_signer :: signer_t where
  "sum_signer =
     \<lparr>signer_get_block_size = 2,
      signer_get_signature = (\<lambda>d. Some (sum_mac d)),
      signer_verify_signature = (\<lambda>d sig. sig = sum_mac d)\<rparr>"

definition sevens_rng :: rng_t where
  "sevens_rng = \<lparr>rng_get_bytes = (\<lambda>n. Some (replicate n 7))\<rparr>"

definition failing_rng :: rng_t where
  "failing_rng = \<lparr>rng_get_bytes = (\<lambda>n. None)\<rparr>"

definition test_lib :: lib_t where
  "test_lib = \<lparr>little_endian = True, create_rng = Some sevens_rng\<rparr>"

definition test_context :: esp_context_t where
  "test_context =
     \<lparr>get_crypter = xor_crypter, get_signer = sum_signer,
      highest = 0, bitmap = 0, window_size = 64\<rparr>"

definition test_host :: host_t where
  "test_host = ([10, 0, 0, 1], 4500)"

definition test_payload :: ip_packet_t where
  "test_payload = \<lparr>get_encoding = [0x45, 0, 0, 5, 9], get_version = 4\<rparr>"

definition received :: "chunk_t \<Rightarrow> private_esp_packet_t" where
  "received d = esp_packet_create_from_packet (packet_create_from_data test_host test_host d)"

definition sending :: private_esp_packet_t where
  "sending =
     set_data (esp_packet_create_from_payload test_host test_host (Some test_payload)) [1, 2, 3]"

text \<open>
  A crypter with a block size of 256, a payload of 254 bytes, and what the pipelines
  make of them: the plaintext that encrypt writes (256 pad bytes, the pad-length byte
  narrowed to 0), its ciphertext and the datagram.
\<close>

definition wide_crypter :: crypter_t where
  "wide_crypter =
     \<lparr>crypter_get_block_size = 256, crypter_get_iv_size = 2,
      crypter_encrypt = (\<lambda>d iv. Some (map (\<lambda>b. b XOR 0x5A) d)),
      crypter_decrypt = (\<lambda>d iv. Some (map (\<lambda>b. b XOR 0x5A) d))\<rparr>"

definition wide_context :: esp_context_t where
  "wide_context =
     \<lparr>get_crypter = wide_crypter, get_signer = sum_signer,
      highest = 0, bitmap = 0, window_size = 64\<rparr>"

definition wide_payload :: ip_packet_t where
  "wide_payload = \<lparr>get_encoding = replicate 254 0x45, get_version = 4\<rparr>"

definition wide_plaintext :: chunk_t where
  "wide_plaintext = replicate 254 0x45 @ generate_padding 256 @ [0, 4]"

definition wide_ciphertext :: chunk_t where
  "wide_ciphertext = map (\<lambda>b. b XOR 0x5A) wide_plaintext"

definition wide_datagram :: chunk_t where
  "wide_datagram =
     [4, 3, 2, 1, 0, 0, 0, 1, 7, 7] @ wide_ciphertext
     @ sum_mac ([4, 3, 2, 1, 0, 0, 0, 1, 7, 7] @ wide_ciphertext)"

section \<open>Properties\<close>

subsection \<open>Evaluation on the test vectors\<close>

lemmas wide_defs = wide_crypter_def wide_context_def wide_payload_def wide_plaintext_def
  wide_ciphertext_def wide_datagram_def

lemmas fixture_defs = xor_crypter_def sum_mac_def sum_signer_def sevens_rng_def failing_rng_def
  test_lib_def test_context_def test_host_def test_payload_def received_def sending_def

lemmas reader_defs = bio_reader_create_def read_uint32_def read_data_def read_data_end_def
  read_uint8_end_def remaining_def peek_def from_be32_def

lemmas writer_defs = write_uint32_def write_uint8_def write_data_def be32_def

lemmas container_defs = get_data_def set_data_def get_payload_def get_next_header_def
  esp_packet_create_from_payload_def esp_packet_create_from_packet_def
  esp_packet_create_internal_def packet_create_from_data_def
  IPPROTO_IPIP_def IPPROTO_IPV6_def IPPROTO_NONE_def

lemmas window_defs = next_seqno_def verify_seqno_def set_authenticated_seqno_def

lemmas encrypt_defs = encrypt_def encrypt_plaintext_def encrypt_payload_def padding_len_def
  plainlen_def generate_padding_def ntohl_def host_bytes_def

lemmas decrypt_defs = decrypt_def decrypt_read_def remove_padding_def check_padding_def
  chunk_free_def ip_packet_create_def

lemma generate_padding_from_numeral:
  "generate_padding_from i (numeral k)
     = of_nat (i + 1) # generate_padding_from (i + 1) (pred_numeral k)"
  by (simp add: numeral_eq_Suc)

lemma generate_padding_from_one: "generate_padding_from i 1 = [of_nat (i + 1)]"
  by (simp add: One_nat_def del: One_nat_def [symmetric])

lemma replicate_numeral_Cons: "replicate (numeral k) x = x # replicate (pred_numeral k) x"
  by (simp add: numeral_eq_Suc)

lemmas eval_simps = generate_padding_from_numeral generate_padding_from_one
  replicate_numeral_Cons Let_def

lemma xor_crypter_contracts:
  "crypter_in_place xor_crypter" "crypter_inverse xor_crypter" "decrypter_contract xor_crypter"
  by (simp_all add: crypter_in_place_def crypter_inverse_def decrypter_contract_def
      xor_crypter_def o_def xor.assoc)

lemma sum_signer_contracts: "signer_size sum_signer" "signer_verifies sum_signer"
  by (auto simp: signer_size_def signer_verifies_def sum_signer_def sum_mac_def)

lemma sevens_rng_contract: "rng_contract sevens_rng"
  by (auto simp: rng_contract_def sevens_rng_def)

subsection \<open>Byte order and the reader\<close>

lemma length_be32: "length (be32 v) = 4"
  by (simp add: be32_def)

lemma from_be32_be32: "from_be32 (be32 v) = v"
  unfolding from_be32_def be32_def
  apply simp
  apply (rule bit_word_eqI)
  subgoal for n
    apply (cases "n < 8"; cases "n < 16"; cases "n < 24")
    apply (auto simp: bit_simps)
    done
  done

lemma be32_from_be32: "be32 (from_be32 [a, b, c, d]) = [a, b, c, d]"
  apply (simp add: be32_def from_be32_def)
  apply (intro conjI; rule bit_word_eqI)
     apply (auto simp: bit_simps dest: bit_imp_le_length)
  done

lemma be32_ntohl: "be32 (ntohl le v) = host_bytes le v"
proof (cases le)
  case True
  have "rev (be32 v) = [ucast v, ucast (drop_bit 8 v), ucast (drop_bit 16 v), ucast (drop_bit 24 v)]"
    by (simp add: be32_def)
  then show ?thesis
    using True by (simp add: ntohl_def host_bytes_def be32_from_be32)
next
  case False
  then show ?thesis
    by (simp add: ntohl_def host_bytes_def from_be32_be32)
qed

lemma read_uint32_be32: "read_uint32 (be32 v @ r) = Some (v, r)"
  by (simp add: read_uint32_def length_be32 from_be32_be32)

lemma read_data_append: "read_data (a @ r) (length a) = Some (a, r)"
  by (simp add: read_data_def)

lemma read_data_end_append: "read_data_end (r @ a) (length a) = Some (a, r)"
  by (simp add: read_data_end_def)

lemma take8_layout: "take 8 (be32 a @ be32 b @ r) = be32 a @ be32 b"
  by (simp add: length_be32)

lemma unat_next:
  assumes "h \<noteq> (0xFFFFFFFF :: u_int32_t)"
  shows "unat (h + 1) = unat h + 1"
proof -
  have "unat h \<noteq> unat (0xFFFFFFFF :: u_int32_t)"
    using assms by (simp only: word_unat_eq_iff [symmetric] not_False_eq_True)
  then have ne: "unat h \<noteq> 4294967295" by simp
  have "unat h < 2 ^ 32" using unsigned_less [of h, where ?'a = nat] by simp
  with ne have lt: "unat h + 1 < 2 ^ 32" by simp
  have "unat (h + 1) = (unat h + 1) mod 2 ^ 32"
    by (simp add: unat_word_ariths)
  with lt show ?thesis by simp
qed

subsection \<open>Padding\<close>

lemma padding_len_mod:
  assumes "0 < bs"
  shows "(n + 2 + padding_len bs n) mod bs = 0"
proof -
  have r: "(n + 2) mod bs < bs" using assms by simp
  have "bs * ((n + 2) div bs) + (n + 2) mod bs = n + 2" by simp
  with r have "n + 2 + (bs - (n + 2) mod bs) = bs * ((n + 2) div bs) + bs" by linarith
  then show ?thesis by (simp add: padding_len_def)
qed

lemma padding_len_range:
  assumes "0 < bs"
  shows "1 \<le> padding_len bs n" "padding_len bs n \<le> bs"
proof -
  have r: "(n + 2) mod bs < bs" using assms by simp
  then show "1 \<le> padding_len bs n" by (simp add: padding_len_def)
  show "padding_len bs n \<le> bs" by (simp add: padding_len_def)
qed

lemma plainlen_mod: "0 < bs \<Longrightarrow> plainlen bs n mod bs = 0"
  using padding_len_mod [of bs n] by (simp add: plainlen_def)

lemma length_generate_from: "length (generate_padding_from i n) = n"
  by (induction n arbitrary: i) auto

lemma length_generate_padding: "length (generate_padding n) = n"
  by (simp add: generate_padding_def length_generate_from)

lemma check_padding_from_iff:
  "check_padding_from i p \<longleftrightarrow> (\<forall>j < length p. p ! j = of_nat (i + j + 1))"
proof (induction p arbitrary: i)
  case Nil
  then show ?case by simp
next
  case (Cons b bs)
  show ?case
    by (simp add: Cons.IH) (auto simp: nth_Cons split: nat.splits)
qed

lemma check_padding_iff:
  "check_padding p \<longleftrightarrow> (\<forall>j < length p. p ! j = of_nat (j + 1))"
  by (simp add: check_padding_def check_padding_from_iff)

lemma check_padding_generate: "check_padding (generate_padding n)"
proof -
  have "check_padding_from i (generate_padding_from i n)" for i
    by (induction n arbitrary: i) auto
  then show ?thesis by (simp add: check_padding_def generate_padding_def)
qed

lemma bad_pad_byte:
  assumes "n + 2 \<le> length pt" "i < n" "pt ! (length pt - 2 - n + i) \<noteq> of_nat (i + 1)"
  shows "\<not> check_padding (take n (drop (length pt - 2 - n) pt))"
  using assms by (auto simp: check_padding_iff)

lemma length_encrypt_plaintext:
  "length (encrypt_plaintext bs pl nh) = plainlen bs (length pl)"
  by (simp add: encrypt_plaintext_def write_data_def write_uint8_def length_generate_padding
      plainlen_def)

subsection \<open>The stages of remove_padding and decrypt\<close>

text \<open>The pad length that remove_padding reads, and the slice it checks.\<close>

lemma read_tail:
  assumes "2 \<le> length pt"
  shows "read_uint8_end (bio_reader_create pt) = Some (last pt, butlast pt)"
    and "read_uint8_end (butlast pt) = Some (pt ! (length pt - 2), take (length pt - 2) pt)"
proof -
  show "read_uint8_end (bio_reader_create pt) = Some (last pt, butlast pt)"
    using assms by (auto simp: read_uint8_end_def bio_reader_create_def)
  have "butlast pt \<noteq> []" using assms by (cases pt) auto
  then have "last (butlast pt) = butlast pt ! (length (butlast pt) - 1)"
    by (rule last_conv_nth)
  also have "\<dots> = pt ! (length pt - 2)"
    using assms by (simp add: nth_butlast numeral_2_eq_2)
  finally have l: "last (butlast pt) = pt ! (length pt - 2)" .
  have "butlast (butlast pt) = take (length pt - 2) pt"
    by (simp add: butlast_conv_take numeral_2_eq_2)
  with l show "read_uint8_end (butlast pt) = Some (pt ! (length pt - 2), take (length pt - 2) pt)"
    using assms by (auto simp: read_uint8_end_def)
qed

lemma remove_padding_eq:
  "remove_padding this pt =
     (if length pt < 2 \<or> length pt < unat (pt ! (length pt - 2)) + 2
         \<or> \<not> check_padding (take (unat (pt ! (length pt - 2)))
                              (drop (length pt - 2 - unat (pt ! (length pt - 2))) pt))
      then (False, this, \<lparr>bytes = pt, alloc = Freed\<rparr>)
      else case ip_packet_create (take (length pt - 2 - unat (pt ! (length pt - 2))) pt) of
             None \<Rightarrow> (False, this\<lparr>payload := None\<rparr>, \<lparr>bytes = pt, alloc = Allocated\<rparr>)
           | Some p \<Rightarrow> (True, this\<lparr>payload := Some p, next_header := last pt\<rparr>,
                        \<lparr>bytes = pt, alloc = Allocated\<rparr>))"
proof (cases "length pt < 2")
  case True
  then have "length pt = 0 \<or> length pt = 1" by arith
  then show ?thesis
  proof
    assume "length pt = 0"
    then show ?thesis
      by (simp add: remove_padding_def read_uint8_end_def bio_reader_create_def chunk_free_def)
  next
    assume "length pt = 1"
    then obtain x where "pt = [x]" by (cases pt) auto
    then show ?thesis
      by (simp add: remove_padding_def read_uint8_end_def bio_reader_create_def chunk_free_def Let_def)
  qed
next
  case False
  then have two: "2 \<le> length pt" by simp
  define n where "n = unat (pt ! (length pt - 2))"
  define r where "r = take (length pt - 2) pt"
  define freed where "freed = \<lparr>bytes = pt, alloc = Freed\<rparr>"
  have len: "length r = length pt - 2" by (simp add: r_def)
  have step: "remove_padding this pt =
     (case read_data_end r n of
        None \<Rightarrow> (False, this, freed)
      | Some (padding, reader) \<Rightarrow>
          if \<not> check_padding padding then (False, this, freed)
          else case ip_packet_create reader of
                 None \<Rightarrow> (False, this\<lparr>payload := None\<rparr>, \<lparr>bytes = pt, alloc = Allocated\<rparr>)
               | Some p \<Rightarrow> (True, this\<lparr>payload := Some p, next_header := last pt\<rparr>,
                            \<lparr>bytes = pt, alloc = Allocated\<rparr>))"
    by (simp add: remove_padding_def Let_def read_tail [OF two] n_def r_def freed_def
        chunk_free_def peek_def split: option.splits)
  show ?thesis
  proof (cases "n + 2 \<le> length pt")
    case False
    then have "read_data_end r n = None"
      using two by (simp add: read_data_end_def len)
    with False two show ?thesis
      by (simp add: step n_def [symmetric] freed_def)
  next
    case True
    have e: "length pt - 2 - (length pt - 2 - n) = n" using True by arith
    have "drop (length r - n) r = drop (length pt - 2 - n) (take (length pt - 2) pt)"
      unfolding len unfolding r_def ..
    also have "\<dots> = take (length pt - 2 - (length pt - 2 - n)) (drop (length pt - 2 - n) pt)"
      by (rule drop_take)
    also have "\<dots> = take n (drop (length pt - 2 - n) pt)"
      unfolding e ..
    finally have slice: "drop (length r - n) r = take n (drop (length pt - 2 - n) pt)" .
    have rest: "take (length r - n) r = take (length pt - 2 - n) pt"
      unfolding len by (simp add: r_def min_def)
    have "read_data_end r n
            = Some (take n (drop (length pt - 2 - n) pt), take (length pt - 2 - n) pt)"
    proof -
      have "\<not> length r < n" using True len by arith
      then have "read_data_end r n = Some (drop (length r - n) r, take (length r - n) r)"
        by (simp add: read_data_end_def)
      then show ?thesis unfolding slice rest .
    qed
    with True two show ?thesis
      by (simp add: step n_def [symmetric] freed_def)
  qed
qed

lemma remove_padding_empty:
  "remove_padding this [] = (False, this, \<lparr>bytes = [], alloc = Freed\<rparr>)"
  by (simp add: remove_padding_def bio_reader_create_def read_uint8_end_def chunk_free_def)

lemma remove_padding_encrypt_plaintext:
  assumes "padding_len bs (length pl) \<le> 255"
  shows "remove_padding this (encrypt_plaintext bs pl nh) =
           (case ip_packet_create pl of
              None \<Rightarrow> (False, this\<lparr>payload := None\<rparr>,
                        \<lparr>bytes = encrypt_plaintext bs pl nh, alloc = Allocated\<rparr>)
            | Some p \<Rightarrow> (True, this\<lparr>payload := Some p, next_header := nh\<rparr>,
                         \<lparr>bytes = encrypt_plaintext bs pl nh, alloc = Allocated\<rparr>))"
proof -
  define n where "n = padding_len bs (length pl)"
  define pt where "pt = encrypt_plaintext bs pl nh"
  have pt: "pt = pl @ generate_padding n @ [of_nat n, nh]"
    by (simp add: pt_def encrypt_plaintext_def n_def write_data_def write_uint8_def)
  have len: "length pt = length pl + n + 2"
    by (simp add: pt length_generate_padding)
  have padb: "pt ! (length pt - 2) = (of_nat n :: u_int8_t)"
    by (simp add: pt length_generate_padding nth_append)
  have un: "unat (of_nat n :: u_int8_t) = n"
    using assms by (simp add: n_def unat_of_nat)
  have slice: "take n (drop (length pt - 2 - n) pt) = generate_padding n"
    by (simp add: len) (simp add: pt length_generate_padding)
  have rest: "take (length pt - 2 - n) pt = pl"
    by (simp add: len) (simp add: pt)
  have lst: "last pt = nh" by (simp add: pt)
  have m: "unat (pt ! (length pt - 2)) = n" by (simp only: padb un)
  have c1: "\<not> length pt < 2" using len by simp
  have c2: "\<not> length pt < n + 2" using len by simp
  have c3: "check_padding (take n (drop (length pt - 2 - n) pt))"
    by (simp only: slice check_padding_generate)
  show ?thesis
    unfolding pt_def [symmetric]
    by (simp only: remove_padding_eq [of this pt] m c1 c2 c3 rest lst simp_thms if_False)
qed

lemma remove_padding_False:
  assumes "remove_padding this pt = (False, this', buf)"
  shows "payload this' = None \<or> this' = this"
  using assms unfolding remove_padding_def
  by (auto simp: Let_def split: option.splits if_splits)

lemma decrypt_not_success:
  assumes "decrypt this ctx = Some (st, this', ctx', buf)" "st \<noteq> SUCCESS"
  shows "payload this' = None"
  using assms remove_padding_False unfolding decrypt_def
  by (fastforce simp: Let_def split: option.splits if_splits prod.splits bool.splits)

lemma decrypt_read_eq:
  "decrypt_read cr sg d =
     (if length d < 8 + crypter_get_iv_size cr + signer_get_block_size sg then Some None
      else if crypter_get_block_size cr = 0 then None
      else if (length d - (8 + crypter_get_iv_size cr + signer_get_block_size sg))
                mod crypter_get_block_size cr \<noteq> 0 then Some None
      else Some (Some (from_be32 (take 4 d), from_be32 (take 4 (drop 4 d)),
                       take (crypter_get_iv_size cr) (drop 8 d),
                       drop (length d - signer_get_block_size sg) d,
                       take (length d - (8 + crypter_get_iv_size cr + signer_get_block_size sg))
                         (drop (8 + crypter_get_iv_size cr) d))))"
  unfolding decrypt_read_def bio_reader_create_def read_uint32_def read_data_def
    read_data_end_def remaining_def peek_def
  by (auto simp: Let_def add.commute)

lemma decrypt_read_layout:
  assumes "length iv = crypter_get_iv_size cr" "length icv = signer_get_block_size sg"
    "0 < crypter_get_block_size cr" "length ct mod crypter_get_block_size cr = 0"
  shows "decrypt_read cr sg (be32 a @ be32 b @ iv @ ct @ icv) = Some (Some (a, b, iv, icv, ct))"
  using assms read_data_append [of iv "ct @ icv"] read_data_end_append [of ct icv]
  by (simp add: decrypt_read_def bio_reader_create_def read_uint32_be32 remaining_def peek_def)

lemma decrypt_commit:
  assumes "decrypt this ctx = Some (st, this', ctx', buf)"
  shows "case decrypt_read (get_crypter ctx) (get_signer ctx) (get_data this) of
           Some (Some (spi, seq, iv, icv, ct)) \<Rightarrow>
             ctx' = (if verify_seqno ctx seq
                        \<and> signer_verify_signature (get_signer ctx)
                             (take 8 (get_data this) @ iv @ ct) icv
                     then set_authenticated_seqno ctx seq else ctx)
         | _ \<Rightarrow> ctx' = ctx"
  using assms unfolding decrypt_def
  by (auto simp: Let_def get_data_def split: option.splits if_splits prod.splits bool.splits)

lemma decrypt_bad_length:
  assumes "0 < crypter_get_block_size (get_crypter ctx)"
    and "length (get_data this) < 8 + crypter_get_iv_size (get_crypter ctx) + signer_get_block_size (get_signer ctx)
       \<or> (length (get_data this) - (8 + crypter_get_iv_size (get_crypter ctx) + signer_get_block_size (get_signer ctx)))
            mod crypter_get_block_size (get_crypter ctx) \<noteq> 0"
  shows "decrypt this ctx = Some (PARSE_ERROR, this\<lparr>payload := None\<rparr>, ctx, None)"
  using assms unfolding decrypt_def
  by (auto simp: Let_def get_data_def decrypt_read_eq)

lemma decrypt_empty_ciphertext:
  assumes bs: "0 < crypter_get_block_size (get_crypter ctx)"
    and len: "length (get_data this) = 8 + crypter_get_iv_size (get_crypter ctx) + signer_get_block_size (get_signer ctx)"
    and dc: "decrypter_contract (get_crypter ctx)"
  shows "\<exists>st this' ctx' buf. decrypt this ctx = Some (st, this', ctx', buf) \<and> st \<in> {VERIFY_ERROR, FAILED, PARSE_ERROR}"
proof -
  define iv where "iv = take (crypter_get_iv_size (get_crypter ctx)) (drop 8 (get_data this))"
  have rd: "\<exists>spi seq icv. decrypt_read (get_crypter ctx) (get_signer ctx) (get_data this)
              = Some (Some (spi, seq, iv, icv, []))"
    using bs len by (simp add: decrypt_read_eq iv_def)
  show ?thesis
  proof (cases "crypter_decrypt (get_crypter ctx) [] iv")
    case None
    with rd show ?thesis
      unfolding decrypt_def by (auto simp: Let_def get_data_def)
  next
    case (Some pt)
    with dc have "length pt = length ([] :: chunk_t)"
      unfolding decrypter_contract_def by blast
    then have "pt = []" by simp
    with Some rd show ?thesis
      unfolding decrypt_def by (auto simp: Let_def get_data_def remove_padding_empty)
  qed
qed

lemma decrypt_icv_stage:
  assumes "decrypt_read (get_crypter ctx) (get_signer ctx) (get_data this)
             = Some (Some (spi, seq, iv, icv, ct))"
    and "verify_seqno ctx seq"
    and "\<not> signer_verify_signature (get_signer ctx) (take 8 (get_data this) @ iv @ ct) icv"
  shows "decrypt this ctx = Some (FAILED, this\<lparr>payload := None\<rparr>, ctx, None)"
  using assms by (simp add: decrypt_def Let_def get_data_def)

lemma decrypt_tail_stage:
  assumes "decrypt_read (get_crypter ctx) (get_signer ctx) (get_data this)
             = Some (Some (spi, seq, iv, icv, ct))"
    and "verify_seqno ctx seq"
    and "signer_verify_signature (get_signer ctx) (take 8 (get_data this) @ iv @ ct) icv"
    and "crypter_decrypt (get_crypter ctx) ct iv = Some pt"
  shows "decrypt this ctx =
           (case remove_padding (this\<lparr>payload := None\<rparr>) pt of
              (False, t, b) \<Rightarrow> Some (PARSE_ERROR, t, set_authenticated_seqno ctx seq, Some b)
            | (True, t, b) \<Rightarrow> Some (SUCCESS, t, set_authenticated_seqno ctx seq, Some b))"
  using assms by (simp add: decrypt_def Let_def get_data_def)

subsection \<open>The stages of encrypt\<close>

lemma get_data_set_data: "get_data (set_data this d) = d"
  by (simp add: get_data_def set_data_def)

lemma encrypt_payload_set_data: "encrypt_payload (set_data this d) = encrypt_payload this"
  by (simp add: encrypt_payload_def set_data_def)

lemma set_data_set_data: "set_data (set_data this a) b = set_data this b"
  by (simp add: set_data_def)

lemma next_header_set_data: "next_header (set_data this d) = next_header this"
  by (simp add: set_data_def)

lemma encrypt_not_success:
  assumes "encrypt lib this ctx spi = Some (st, this', ctx')" "st \<noteq> SUCCESS"
  shows "this' = set_data this []"
  using assms unfolding encrypt_def
  by (auto simp: Let_def split: option.splits if_splits)

lemma encrypt_cycled:
  assumes "highest ctx = 0xFFFFFFFF"
  shows "encrypt lib this ctx spi = Some (FAILED, set_data this [], ctx)"
  using assms by (simp add: encrypt_def next_seqno_def)

lemma encrypt_no_rng:
  assumes "highest ctx \<noteq> 0xFFFFFFFF" "create_rng lib = None"
  shows "encrypt lib this ctx spi = Some (NOT_FOUND, set_data this [], ctx\<lparr>highest := highest ctx + 1\<rparr>)"
  using assms by (simp add: encrypt_def next_seqno_def)

lemma encrypt_rng_fails:
  assumes "highest ctx \<noteq> 0xFFFFFFFF" "create_rng lib = Some rng"
    "0 < crypter_get_block_size (get_crypter ctx)"
    "rng_get_bytes rng (crypter_get_iv_size (get_crypter ctx)) = None"
  shows "encrypt lib this ctx spi = Some (FAILED, set_data this [], ctx\<lparr>highest := highest ctx + 1\<rparr>)"
  using assms by (simp add: encrypt_def next_seqno_def Let_def)

lemma encrypt_success:
  assumes "encrypt lib this ctx spi = Some (SUCCESS, this', ctx')"
  shows "\<exists>rng iv ct icv.
           create_rng lib = Some rng
         \<and> highest ctx \<noteq> 0xFFFFFFFF
         \<and> ctx' = ctx\<lparr>highest := highest ctx + 1\<rparr>
         \<and> 0 < crypter_get_block_size (get_crypter ctx)
         \<and> rng_get_bytes rng (crypter_get_iv_size (get_crypter ctx)) = Some iv
         \<and> crypter_encrypt (get_crypter ctx)
              (encrypt_plaintext (crypter_get_block_size (get_crypter ctx))
                 (encrypt_payload this) (next_header this)) iv = Some ct
         \<and> signer_get_signature (get_signer ctx)
              (be32 (ntohl (little_endian lib) spi) @ be32 (highest ctx + 1) @ iv @ ct) = Some icv
         \<and> this' = set_data this
              (be32 (ntohl (little_endian lib) spi) @ be32 (highest ctx + 1) @ iv @ ct @ icv)"
  using assms unfolding encrypt_def next_seqno_def
  by (auto simp: Let_def write_uint32_def encrypt_payload_set_data next_header_set_data
      set_data_set_data split: option.splits if_splits)

lemma encrypt_success_layout:
  assumes enc: "encrypt lib this ctx spi = Some (SUCCESS, this', ctx')"
    and rng: "create_rng lib = Some rng" "rng_contract rng"
    and ip: "crypter_in_place (get_crypter ctx)"
    and ss: "signer_size (get_signer ctx)"
  shows "\<exists>iv ct icv.
           get_data this'
             = be32 (ntohl (little_endian lib) spi) @ be32 (highest ctx + 1) @ iv @ ct @ icv
         \<and> length iv = crypter_get_iv_size (get_crypter ctx)
         \<and> length ct = plainlen (crypter_get_block_size (get_crypter ctx))
                          (length (encrypt_payload this))
         \<and> length icv = signer_get_block_size (get_signer ctx)
         \<and> crypter_encrypt (get_crypter ctx)
              (encrypt_plaintext (crypter_get_block_size (get_crypter ctx))
                 (encrypt_payload this) (next_header this)) iv = Some ct
         \<and> signer_get_signature (get_signer ctx)
              (be32 (ntohl (little_endian lib) spi) @ be32 (highest ctx + 1) @ iv @ ct) = Some icv
         \<and> 0 < crypter_get_block_size (get_crypter ctx)
         \<and> highest ctx \<noteq> 0xFFFFFFFF
         \<and> ctx' = ctx\<lparr>highest := highest ctx + 1\<rparr>"
proof -
  from encrypt_success [OF enc] rng(1)
  obtain iv ct icv where
    bs: "0 < crypter_get_block_size (get_crypter ctx)"
    and h: "highest ctx \<noteq> 0xFFFFFFFF" "ctx' = ctx\<lparr>highest := highest ctx + 1\<rparr>"
    and iv: "rng_get_bytes rng (crypter_get_iv_size (get_crypter ctx)) = Some iv"
    and ct: "crypter_encrypt (get_crypter ctx)
              (encrypt_plaintext (crypter_get_block_size (get_crypter ctx))
                 (encrypt_payload this) (next_header this)) iv = Some ct"
    and icv: "signer_get_signature (get_signer ctx)
              (be32 (ntohl (little_endian lib) spi) @ be32 (highest ctx + 1) @ iv @ ct) = Some icv"
    and d: "this' = set_data this
              (be32 (ntohl (little_endian lib) spi) @ be32 (highest ctx + 1) @ iv @ ct @ icv)"
    by auto
  from iv rng(2) have liv: "length iv = crypter_get_iv_size (get_crypter ctx)"
    unfolding rng_contract_def by blast
  from ct ip have "length ct
      = length (encrypt_plaintext (crypter_get_block_size (get_crypter ctx))
                 (encrypt_payload this) (next_header this))"
    unfolding crypter_in_place_def by blast
  then have lct: "length ct = plainlen (crypter_get_block_size (get_crypter ctx))
                          (length (encrypt_payload this))"
    by (simp add: length_encrypt_plaintext)
  from icv ss have licv: "length icv = signer_get_block_size (get_signer ctx)"
    unfolding signer_size_def by blast
  from d have "get_data this'
             = be32 (ntohl (little_endian lib) spi) @ be32 (highest ctx + 1) @ iv @ ct @ icv"
    by (simp add: get_data_set_data)
  with liv lct licv ct icv bs h show ?thesis by blast
qed

subsection \<open>The pipelines at block size 256\<close>

lemma wide_crypter_contracts:
  "crypter_in_place wide_crypter" "crypter_inverse wide_crypter"
  by (simp_all add: crypter_in_place_def crypter_inverse_def wide_crypter_def o_def xor.assoc)

lemma ip_packet_create_v4:
  assumes "xs \<noteq> []" "drop_bit 4 (hd xs) = 4"
  shows "ip_packet_create xs = Some \<lparr>get_encoding = xs, get_version = 4\<rparr>"
  using assms by (cases xs) (simp_all add: ip_packet_create_def)

lemma length_wide_plaintext: "length wide_plaintext = 512"
  by (simp add: wide_plaintext_def length_generate_padding)

lemma encrypt_plaintext_wide:
  "encrypt_plaintext 256 (replicate 254 0x45) 4 = wide_plaintext"
  by (simp add: encrypt_plaintext_def padding_len_def write_data_def write_uint8_def
      wide_plaintext_def)

lemma remove_padding_wide:
  "remove_padding this wide_plaintext
     = (True,
        this\<lparr>payload := Some \<lparr>get_encoding = replicate 254 0x45 @ generate_padding 256,
                                get_version = 4\<rparr>,
             next_header := 4\<rparr>,
        \<lparr>bytes = wide_plaintext, alloc = Allocated\<rparr>)"
proof -
  let ?pt = wide_plaintext
  have len: "length ?pt = 512" by (rule length_wide_plaintext)
  have padb: "?pt ! (length ?pt - 2) = 0"
    unfolding len by (simp add: wide_plaintext_def nth_append length_generate_padding)
  have m: "unat (?pt ! (length ?pt - 2)) = 0" by (simp only: padb unat_0)
  have c1: "\<not> length ?pt < 2" by (simp add: len)
  have c2: "\<not> length ?pt < 0 + 2" by (simp add: len)
  have c3: "check_padding (take 0 (drop (length ?pt - 2 - 0) ?pt))"
    by (simp add: check_padding_def)
  have rest: "take (length ?pt - 2 - 0) ?pt = replicate 254 0x45 @ generate_padding 256"
    unfolding len by (simp add: wide_plaintext_def length_generate_padding)
  have lst: "last ?pt = 4" by (simp add: wide_plaintext_def)
  have ip: "ip_packet_create (replicate 254 0x45 @ generate_padding 256)
              = Some \<lparr>get_encoding = replicate 254 0x45 @ generate_padding 256, get_version = 4\<rparr>"
    by (rule ip_packet_create_v4) (simp_all add: hd_append)
  show ?thesis
    by (simp only: remove_padding_eq [of this ?pt] m c1 c2 c3 rest lst ip simp_thms if_False
        option.case)
qed

lemma encrypt_wide:
  "encrypt test_lib (esp_packet_create_from_payload test_host test_host (Some wide_payload))
       wide_context 0x01020304
     = Some (SUCCESS,
             set_data (esp_packet_create_from_payload test_host test_host (Some wide_payload))
               wide_datagram,
             wide_context\<lparr>highest := 1\<rparr>)"
proof -
  let ?pkt = "esp_packet_create_from_payload test_host test_host (Some wide_payload)"
  have pl: "encrypt_payload (set_data ?pkt []) = replicate 254 0x45"
    by (simp add: encrypt_payload_def set_data_def esp_packet_create_from_payload_def
        esp_packet_create_internal_def wide_payload_def Let_def)
  have nh: "next_header (set_data ?pkt []) = 4"
    by (simp add: set_data_def esp_packet_create_from_payload_def
        esp_packet_create_internal_def wide_payload_def Let_def IPPROTO_IPIP_def)
  have spi: "be32 (ntohl True 0x01020304) = [4, 3, 2, 1]"
    by (simp add: ntohl_def host_bytes_def be32_def from_be32_def)
  have sq: "be32 1 = [0, 0, 0, 1]"
    by (simp add: be32_def)
  have iv: "replicate 2 (7 :: u_int8_t) = [7, 7]"
    by (simp add: numeral_2_eq_2)
  show ?thesis
    by (simp add: encrypt_def next_seqno_def Let_def test_lib_def sevens_rng_def wide_context_def
        wide_crypter_def sum_signer_def write_uint32_def pl nh spi sq iv encrypt_plaintext_wide
        set_data_set_data wide_datagram_def wide_ciphertext_def)
qed

lemma decrypt_wide:
  "decrypt (received wide_datagram) wide_context
     = Some (SUCCESS,
             (received wide_datagram)
               \<lparr>payload := Some \<lparr>get_encoding = replicate 254 0x45 @ generate_padding 256,
                                  get_version = 4\<rparr>,
                next_header := 4\<rparr>,
             wide_context\<lparr>highest := 1, bitmap := 1\<rparr>,
             Some \<lparr>bytes = wide_plaintext, alloc = Allocated\<rparr>)"
proof -
  let ?icv = "sum_mac ([4, 3, 2, 1, 0, 0, 0, 1, 7, 7] @ wide_ciphertext)"
  have g: "get_crypter wide_context = wide_crypter" "get_signer wide_context = sum_signer"
    "get_data (received wide_datagram) = wide_datagram"
    by (simp_all add: wide_context_def received_def container_defs)
  have lay: "wide_datagram = be32 0x04030201 @ be32 1 @ [7, 7] @ wide_ciphertext @ ?icv"
    by (simp add: wide_datagram_def be32_def)
  have lct: "length wide_ciphertext = 512"
    by (simp add: wide_ciphertext_def length_wide_plaintext)
  have rd: "decrypt_read (get_crypter wide_context) (get_signer wide_context)
              (get_data (received wide_datagram))
            = Some (Some (0x04030201, 1, [7, 7], ?icv, wide_ciphertext))"
    unfolding g unfolding lay
    by (rule decrypt_read_layout)
      (simp_all add: wide_crypter_def sum_signer_def sum_mac_def lct)
  have vs: "verify_seqno wide_context 1"
    by (simp add: wide_context_def verify_seqno_def)
  have t8: "take 8 wide_datagram = [4, 3, 2, 1, 0, 0, 0, 1]"
    by (simp add: wide_datagram_def)
  have v: "signer_verify_signature (get_signer wide_context)
             (take 8 (get_data (received wide_datagram)) @ [7, 7] @ wide_ciphertext) ?icv"
    unfolding g t8 by (simp add: sum_signer_def)
  have dc: "crypter_decrypt (get_crypter wide_context) wide_ciphertext [7, 7] = Some wide_plaintext"
    unfolding g by (simp add: wide_crypter_def wide_ciphertext_def o_def xor.assoc)
  have cm: "set_authenticated_seqno wide_context 1 = wide_context\<lparr>highest := 1, bitmap := 1\<rparr>"
    by (simp add: wide_context_def set_authenticated_seqno_def)
  have pn: "(received wide_datagram)\<lparr>payload := None\<rparr> = received wide_datagram"
    by (simp add: received_def container_defs)
  show ?thesis
    unfolding decrypt_tail_stage [OF rd vs v dc] remove_padding_wide cm pn
    by simp
qed

section \<open>The claims\<close>

text \<open>
  C1 (as the code has it). decrypt commits the sequence number into the anti-replay
  window with \<^verbatim>\<open>set_authenticated_seqno\<close> as soon as the ICV has verified, before
  it decrypts and decodes the tail. When the length check, the sequence check or the
  ICV check fails, the window is unchanged; once the ICV has verified, the window holds
  the committed number whatever the later steps return.
\<close>

theorem decrypt_commits_after_icv:
  assumes "decrypt this ctx = Some (st, this', ctx', buf)"
  shows "case decrypt_read (get_crypter ctx) (get_signer ctx) (get_data this) of
           Some (Some (spi, seq, iv, icv, ct)) \<Rightarrow>
             ctx' = (if verify_seqno ctx seq
                        \<and> signer_verify_signature (get_signer ctx)
                             (take 8 (get_data this) @ iv @ ct) icv
                     then set_authenticated_seqno ctx seq else ctx)
         | _ \<Rightarrow> ctx' = ctx"
  using decrypt_commit [OF assms] .

text \<open>
  The claim as stated fails: a datagram with a valid ICV whose padding is invalid (the
  single pad byte is 2) is rejected with \<open>PARSE_ERROR\<close>, and the window has moved
  from 0 to 1.
\<close>

theorem decrypt_commits_before_tail_counterexample:
  "decrypt (received [4, 3, 2, 1, 0, 0, 0, 1, 7, 7,
                      0x1F, 0x5A, 0x5A, 0x5F, 0x53, 0x58, 0x5B, 0x5E, 175, 18])
       test_context
     = Some (PARSE_ERROR,
             received [4, 3, 2, 1, 0, 0, 0, 1, 7, 7,
                       0x1F, 0x5A, 0x5A, 0x5F, 0x53, 0x58, 0x5B, 0x5E, 175, 18],
             test_context\<lparr>highest := 1, bitmap := 1\<rparr>,
             Some \<lparr>bytes = [0x45, 0, 0, 5, 9, 2, 1, 4], alloc = Freed\<rparr>)
   \<and> highest test_context = 0
   \<and> highest (test_context\<lparr>highest := 1, bitmap := 1\<rparr>) = 1"
  by (simp add: fixture_defs container_defs window_defs decrypt_defs reader_defs eval_simps)

theorem decrypt_commits_after_icv_witness:
  "decrypt (received [4, 3, 2, 1, 0, 0, 0, 1, 7, 7,
                      0x1F, 0x5A, 0x5A, 0x5F, 0x53, 0x58, 0x5B, 0x5E, 175, 18])
       test_context
     = Some (PARSE_ERROR,
             received [4, 3, 2, 1, 0, 0, 0, 1, 7, 7,
                       0x1F, 0x5A, 0x5A, 0x5F, 0x53, 0x58, 0x5B, 0x5E, 175, 18],
             test_context\<lparr>highest := 1, bitmap := 1\<rparr>,
             Some \<lparr>bytes = [0x45, 0, 0, 5, 9, 2, 1, 4], alloc = Freed\<rparr>)
   \<and> decrypt_read xor_crypter sum_signer
        [4, 3, 2, 1, 0, 0, 0, 1, 7, 7, 0x1F, 0x5A, 0x5A, 0x5F, 0x53, 0x58, 0x5B, 0x5E, 175, 18]
      = Some (Some (0x04030201, 1, [7, 7], [175, 18],
                    [0x1F, 0x5A, 0x5A, 0x5F, 0x53, 0x58, 0x5B, 0x5E]))
   \<and> verify_seqno test_context 1
   \<and> signer_verify_signature sum_signer
        ([4, 3, 2, 1, 0, 0, 0, 1] @ [7, 7] @ [0x1F, 0x5A, 0x5A, 0x5F, 0x53, 0x58, 0x5B, 0x5E])
        [175, 18]
   \<and> test_context\<lparr>highest := 1, bitmap := 1\<rparr> = set_authenticated_seqno test_context 1"
proof -
  let ?d = "[4, 3, 2, 1, 0, 0, 0, 1, 7, 7,
             0x1F, 0x5A, 0x5A, 0x5F, 0x53, 0x58, 0x5B, 0x5E, 175, 18] :: chunk_t"
  have h: "decrypt (received ?d) test_context
             = Some (PARSE_ERROR, received ?d, test_context\<lparr>highest := 1, bitmap := 1\<rparr>,
                     Some \<lparr>bytes = [0x45, 0, 0, 5, 9, 2, 1, 4], alloc = Freed\<rparr>)"
    by (simp add: fixture_defs container_defs window_defs decrypt_defs reader_defs eval_simps)
  have r: "decrypt_read xor_crypter sum_signer ?d
      = Some (Some (0x04030201, 1, [7, 7], [175, 18],
                    [0x1F, 0x5A, 0x5A, 0x5F, 0x53, 0x58, 0x5B, 0x5E]))"
    by (simp add: fixture_defs decrypt_defs reader_defs eval_simps)
  have g: "get_crypter test_context = xor_crypter" "get_signer test_context = sum_signer"
    "get_data (received ?d) = ?d"
    by (simp_all add: test_context_def received_def container_defs)
  have vs: "verify_seqno test_context 1"
    by (simp add: fixture_defs window_defs)
  have sg: "signer_verify_signature sum_signer
        ([4, 3, 2, 1, 0, 0, 0, 1] @ [7, 7] @ [0x1F, 0x5A, 0x5A, 0x5F, 0x53, 0x58, 0x5B, 0x5E])
        [175, 18]"
    by (simp add: fixture_defs)
  from decrypt_commits_after_icv [OF h] r g vs sg
  have "test_context\<lparr>highest := 1, bitmap := 1\<rparr> = set_authenticated_seqno test_context 1"
    by simp
  with h r vs sg show ?thesis by simp
qed

text \<open>
  C2 (as the code has it). With a matching SA pair (the receiving context has the
  crypter and the signer of the sending one, decryption inverts encryption, a signature
  verifies over its input, the primitives fill the buffers they are given), a pad
  length \<open>blocksize - ((payload_len + 2) mod blocksize)\<close> of at most 255, so that it
  fits the pad-length byte (every block size up to 255 gives one), and a window that
  accepts the number, decrypting the datagram that encrypt produced for an inner IPv4
  or IPv6 packet succeeds and yields that packet and the same next-header value, which
  is \<open>IPPROTO_IPIP\<close> or \<open>IPPROTO_IPV6\<close>; the successful encrypt has advanced the
  egress sequence number by exactly 1.
\<close>

theorem encrypt_decrypt_round_trip:
  assumes ip: "crypter_in_place (get_crypter ectx)"
    and inv: "crypter_inverse (get_crypter ectx)"
    and ss: "signer_size (get_signer ectx)"
    and sv: "signer_verifies (get_signer ectx)"
    and rng: "create_rng lib = Some rng" "rng_contract rng"
    and small: "padding_len (crypter_get_block_size (get_crypter ectx))
                  (length (get_encoding p)) \<le> 255"
    and pair: "get_crypter ictx = get_crypter ectx" "get_signer ictx = get_signer ectx"
    and p: "ip_packet_create (get_encoding p) = Some p"
    and cont: "this = esp_packet_create_from_payload src dst (Some p)"
    and enc: "encrypt lib this ectx spi = Some (SUCCESS, this', ectx')"
    and fresh: "verify_seqno ictx (highest ectx')"
    and rcv: "get_data that = get_data this'"
  shows "(\<exists>that' buf.
           decrypt that ictx
             = Some (SUCCESS, that', set_authenticated_seqno ictx (highest ectx'), Some buf)
           \<and> get_payload that' = Some p
           \<and> get_next_header that' = get_next_header this)
       \<and> get_next_header this = (if get_version p = 4 then IPPROTO_IPIP else IPPROTO_IPV6)
       \<and> unat (highest ectx') = unat (highest ectx) + 1"
proof -
  let ?cr = "get_crypter ectx" and ?sg = "get_signer ectx"
  let ?a = "ntohl (little_endian lib) spi" and ?b = "highest ectx + 1"
  have pl: "encrypt_payload this = get_encoding p"
    by (simp add: cont encrypt_payload_def esp_packet_create_from_payload_def Let_def)
  have nh: "next_header this = (if get_version p = 4 then IPPROTO_IPIP else IPPROTO_IPV6)"
    by (simp add: cont esp_packet_create_from_payload_def Let_def)
  let ?pt = "encrypt_plaintext (crypter_get_block_size ?cr) (get_encoding p) (next_header this)"
  from encrypt_success_layout [OF enc rng ip ss]
  obtain iv ct icv where
    d: "get_data this' = be32 ?a @ be32 ?b @ iv @ ct @ icv"
    and liv: "length iv = crypter_get_iv_size ?cr"
    and lct: "length ct = plainlen (crypter_get_block_size ?cr) (length (get_encoding p))"
    and licv: "length icv = signer_get_block_size ?sg"
    and ct: "crypter_encrypt ?cr ?pt iv = Some ct"
    and icv: "signer_get_signature ?sg (be32 ?a @ be32 ?b @ iv @ ct) = Some icv"
    and pos: "0 < crypter_get_block_size ?cr"
    and h: "highest ectx \<noteq> 0xFFFFFFFF" "ectx' = ectx\<lparr>highest := highest ectx + 1\<rparr>"
    unfolding pl by blast
  from ct inv have dec: "crypter_decrypt ?cr ct iv = Some ?pt"
    unfolding crypter_inverse_def by blast
  from icv sv have ver: "signer_verify_signature ?sg (be32 ?a @ be32 ?b @ iv @ ct) icv"
    unfolding signer_verifies_def by blast
  have hi: "highest ectx' = ?b" using h by simp
  have rd: "decrypt_read (get_crypter ictx) (get_signer ictx) (get_data that)
              = Some (Some (?a, ?b, iv, icv, ct))"
    unfolding rcv d pair
    by (rule decrypt_read_layout) (simp_all add: liv licv pos lct plainlen_mod)
  have vs: "verify_seqno ictx ?b" using fresh hi by simp
  have v: "signer_verify_signature (get_signer ictx) (take 8 (get_data that) @ iv @ ct) icv"
    using ver by (simp add: rcv d pair length_be32)
  have dc: "crypter_decrypt (get_crypter ictx) ct iv = Some ?pt"
    using dec pair by simp
  have rp: "remove_padding (that\<lparr>payload := None\<rparr>) ?pt
              = (True, that\<lparr>payload := Some p, next_header := next_header this\<rparr>,
                 \<lparr>bytes = ?pt, alloc = Allocated\<rparr>)"
    by (simp add: remove_padding_encrypt_plaintext [OF small] p)
  have "decrypt that ictx
          = Some (SUCCESS, that\<lparr>payload := Some p, next_header := next_header this\<rparr>,
                  set_authenticated_seqno ictx (highest ectx'),
                  Some \<lparr>bytes = ?pt, alloc = Allocated\<rparr>)"
    by (simp add: decrypt_tail_stage [OF rd vs v dc] rp hi)
  then have "\<exists>that' buf.
           decrypt that ictx
             = Some (SUCCESS, that', set_authenticated_seqno ictx (highest ectx'), Some buf)
           \<and> get_payload that' = Some p
           \<and> get_next_header that' = get_next_header this"
    by (simp add: get_payload_def get_next_header_def)
  moreover have "unat (highest ectx') = unat (highest ectx) + 1"
    unfolding hi using h(1) by (rule unat_next)
  ultimately show ?thesis using nh by (simp add: get_next_header_def)
qed

theorem encrypt_decrypt_round_trip_witness:
  "encrypt test_lib (esp_packet_create_from_payload test_host test_host (Some test_payload))
       test_context 0x01020304
     = Some (SUCCESS,
             set_data (esp_packet_create_from_payload test_host test_host (Some test_payload))
               [4, 3, 2, 1, 0, 0, 0, 1, 7, 7,
                0x1F, 0x5A, 0x5A, 0x5F, 0x53, 0x5B, 0x5B, 0x5E, 178, 18],
             test_context\<lparr>highest := 1\<rparr>)
   \<and> ip_packet_create (get_encoding test_payload) = Some test_payload
   \<and> padding_len (crypter_get_block_size (get_crypter test_context))
        (length (get_encoding test_payload)) \<le> 255
   \<and> verify_seqno test_context 1
   \<and> decrypt (received [4, 3, 2, 1, 0, 0, 0, 1, 7, 7,
                        0x1F, 0x5A, 0x5A, 0x5F, 0x53, 0x5B, 0x5B, 0x5E, 178, 18])
         test_context
       = Some (SUCCESS,
               (received [4, 3, 2, 1, 0, 0, 0, 1, 7, 7,
                          0x1F, 0x5A, 0x5A, 0x5F, 0x53, 0x5B, 0x5B, 0x5E, 178, 18])
                 \<lparr>payload := Some test_payload, next_header := IPPROTO_IPIP\<rparr>,
               test_context\<lparr>highest := 1, bitmap := 1\<rparr>,
               Some \<lparr>bytes = [0x45, 0, 0, 5, 9, 1, 1, 4], alloc = Allocated\<rparr>)
   \<and> unat (highest (test_context\<lparr>highest := 1\<rparr>)) = unat (highest test_context) + 1"
proof -
  let ?d = "[4, 3, 2, 1, 0, 0, 0, 1, 7, 7,
             0x1F, 0x5A, 0x5A, 0x5F, 0x53, 0x5B, 0x5B, 0x5E, 178, 18] :: chunk_t"
  let ?pkt = "esp_packet_create_from_payload test_host test_host (Some test_payload)"
  have ip: "crypter_in_place (get_crypter test_context)"
    and inv: "crypter_inverse (get_crypter test_context)"
    and ss: "signer_size (get_signer test_context)"
    and sv: "signer_verifies (get_signer test_context)"
    by (simp_all add: test_context_def xor_crypter_contracts sum_signer_contracts)
  have rng: "create_rng test_lib = Some sevens_rng" by (simp add: test_lib_def)
  have small: "padding_len (crypter_get_block_size (get_crypter test_context))
                 (length (get_encoding test_payload)) \<le> 255"
    by (simp add: test_context_def xor_crypter_def test_payload_def padding_len_def)
  have p: "ip_packet_create (get_encoding test_payload) = Some test_payload"
    by (simp add: test_payload_def ip_packet_create_def)
  have enc: "encrypt test_lib ?pkt test_context 0x01020304
               = Some (SUCCESS, set_data ?pkt ?d, test_context\<lparr>highest := 1\<rparr>)"
    by (simp add: fixture_defs container_defs window_defs encrypt_defs writer_defs reader_defs
        eval_simps)
  have fresh: "verify_seqno test_context (highest (test_context\<lparr>highest := 1\<rparr>))"
    by (simp add: fixture_defs window_defs)
  have rcv: "get_data (received ?d) = get_data (set_data ?pkt ?d)"
    by (simp add: received_def container_defs)
  have dec: "decrypt (received ?d) test_context
       = Some (SUCCESS, (received ?d)\<lparr>payload := Some test_payload, next_header := IPPROTO_IPIP\<rparr>,
               test_context\<lparr>highest := 1, bitmap := 1\<rparr>,
               Some \<lparr>bytes = [0x45, 0, 0, 5, 9, 1, 1, 4], alloc = Allocated\<rparr>)"
    by (simp add: fixture_defs container_defs window_defs decrypt_defs reader_defs eval_simps)
  from encrypt_decrypt_round_trip
    [OF ip inv ss sv rng sevens_rng_contract small refl refl p refl enc fresh rcv]
  have "unat (highest (test_context\<lparr>highest := 1\<rparr>)) = unat (highest test_context) + 1"
    by simp
  with enc p small fresh dec show ?thesis by simp
qed

text \<open>
  The claim as stated fails: with a block size of 256 and an inner IPv4 packet of 254
  bytes, encrypt writes 256 pad bytes and the pad-length byte \<open>(u_int8_t)256 = 0\<close>;
  every contract of a matching SA pair holds, encrypt and decrypt both return
  \<open>SUCCESS\<close>, and decrypt, which strips no padding, yields a payload of 510 bytes.
\<close>

theorem round_trip_pad_length_wraps_counterexample:
  "crypter_get_block_size (get_crypter wide_context) = 256
   \<and> crypter_in_place (get_crypter wide_context)
   \<and> crypter_inverse (get_crypter wide_context)
   \<and> signer_size (get_signer wide_context)
   \<and> signer_verifies (get_signer wide_context)
   \<and> create_rng test_lib = Some sevens_rng
   \<and> rng_contract sevens_rng
   \<and> ip_packet_create (get_encoding wide_payload) = Some wide_payload
   \<and> length (get_encoding wide_payload) = 254
   \<and> encrypt test_lib (esp_packet_create_from_payload test_host test_host (Some wide_payload))
         wide_context 0x01020304
       = Some (SUCCESS,
               set_data (esp_packet_create_from_payload test_host test_host (Some wide_payload))
                 wide_datagram,
               wide_context\<lparr>highest := 1\<rparr>)
   \<and> verify_seqno wide_context 1
   \<and> decrypt (received wide_datagram) wide_context
       = Some (SUCCESS,
               (received wide_datagram)
                 \<lparr>payload := Some \<lparr>get_encoding = replicate 254 0x45 @ generate_padding 256,
                                    get_version = 4\<rparr>,
                  next_header := 4\<rparr>,
               wide_context\<lparr>highest := 1, bitmap := 1\<rparr>,
               Some \<lparr>bytes = wide_plaintext, alloc = Allocated\<rparr>)
   \<and> length (replicate 254 (0x45 :: u_int8_t) @ generate_padding 256) = 510
   \<and> \<lparr>get_encoding = replicate 254 0x45 @ generate_padding 256, get_version = 4\<rparr>
       \<noteq> wide_payload"
proof -
  have c: "crypter_get_block_size (get_crypter wide_context) = 256"
    "crypter_in_place (get_crypter wide_context)" "crypter_inverse (get_crypter wide_context)"
    "signer_size (get_signer wide_context)" "signer_verifies (get_signer wide_context)"
    by (simp_all add: wide_context_def wide_crypter_contracts sum_signer_contracts)
      (simp add: wide_crypter_def)
  have r: "create_rng test_lib = Some sevens_rng" by (simp add: test_lib_def)
  have p: "ip_packet_create (get_encoding wide_payload) = Some wide_payload"
    unfolding wide_payload_def by (simp add: ip_packet_create_v4)
  have l: "length (get_encoding wide_payload) = 254" by (simp add: wide_payload_def)
  have vs: "verify_seqno wide_context 1" by (simp add: wide_context_def verify_seqno_def)
  have n: "length (replicate 254 (0x45 :: u_int8_t) @ generate_padding 256) = 510"
    by (simp add: length_generate_padding)
  have d: "\<lparr>get_encoding = replicate 254 0x45 @ generate_padding 256, get_version = 4\<rparr>
             \<noteq> wide_payload"
  proof
    assume "\<lparr>get_encoding = replicate 254 0x45 @ generate_padding 256, get_version = 4\<rparr>
              = wide_payload"
    then have "get_encoding \<lparr>get_encoding = replicate 254 0x45 @ generate_padding 256,
                              get_version = 4\<rparr> = get_encoding wide_payload"
      by (rule arg_cong)
    then have "length (replicate 254 (0x45 :: u_int8_t) @ generate_padding 256)
                 = length (get_encoding wide_payload)"
      by simp
    with n l show False by simp
  qed
  from c r sevens_rng_contract p l encrypt_wide vs decrypt_wide n d show ?thesis
    by (intro conjI)
qed

text \<open>
  C3 (as the code has it). decrypt returns \<open>PARSE_ERROR\<close> unless
  \<open>datagram_len \<ge> 8 + iv_len + icv_len\<close> and
  \<open>(datagram_len - 8 - iv_len - icv_len) mod block_size = 0\<close>. A datagram whose
  ciphertext region has zero bytes passes this length check; it is rejected by a later
  step, with \<open>VERIFY_ERROR\<close>, \<open>FAILED\<close> or \<open>PARSE_ERROR\<close> (the last one
  from tail decoding, with a decrypter that returns as many bytes as it is given).
\<close>

theorem decrypt_length_check:
  assumes "0 < crypter_get_block_size (get_crypter ctx)"
  shows "(length (get_data this)
            < 8 + crypter_get_iv_size (get_crypter ctx) + signer_get_block_size (get_signer ctx)
          \<or> (length (get_data this)
               - (8 + crypter_get_iv_size (get_crypter ctx) + signer_get_block_size (get_signer ctx)))
              mod crypter_get_block_size (get_crypter ctx) \<noteq> 0
          \<longrightarrow> decrypt this ctx = Some (PARSE_ERROR, this\<lparr>payload := None\<rparr>, ctx, None))
       \<and> (length (get_data this)
            = 8 + crypter_get_iv_size (get_crypter ctx) + signer_get_block_size (get_signer ctx)
          \<and> decrypter_contract (get_crypter ctx)
          \<longrightarrow> (\<exists>spi seq iv icv.
                 decrypt_read (get_crypter ctx) (get_signer ctx) (get_data this)
                   = Some (Some (spi, seq, iv, icv, [])))
              \<and> (\<exists>st this' ctx' buf.
                   decrypt this ctx = Some (st, this', ctx', buf)
                   \<and> st \<in> {VERIFY_ERROR, FAILED, PARSE_ERROR}))"
  using assms decrypt_bad_length [of ctx this] decrypt_empty_ciphertext [of ctx this]
  by (simp add: decrypt_read_eq)

text \<open>
  The claim as stated fails: a datagram of \<open>8 + iv_len + icv_len\<close> bytes, shorter than
  \<open>8 + iv_len + icv_len + block_size\<close>, with a wrong ICV is rejected with
  \<open>FAILED\<close>, not with \<open>PARSE_ERROR\<close>.
\<close>

theorem decrypt_empty_ciphertext_counterexample:
  "length [4, 3, 2, 1, 0, 0, 0, 1, 7, 7, 0, 0 :: u_int8_t]
     = 8 + crypter_get_iv_size (get_crypter test_context)
         + signer_get_block_size (get_signer test_context)
   \<and> length [4, 3, 2, 1, 0, 0, 0, 1, 7, 7, 0, 0 :: u_int8_t]
     < 8 + crypter_get_iv_size (get_crypter test_context)
         + signer_get_block_size (get_signer test_context)
         + crypter_get_block_size (get_crypter test_context)
   \<and> decrypt (received [4, 3, 2, 1, 0, 0, 0, 1, 7, 7, 0, 0]) test_context
       = Some (FAILED, received [4, 3, 2, 1, 0, 0, 0, 1, 7, 7, 0, 0], test_context, None)"
  by (simp add: fixture_defs container_defs window_defs decrypt_defs reader_defs eval_simps)

theorem decrypt_length_check_witness:
  "0 < crypter_get_block_size (get_crypter test_context)
   \<and> length (get_data (received [4, 3, 2, 1, 0, 0, 0, 1, 7, 7, 9, 0, 0])) = 13
   \<and> decrypt (received [4, 3, 2, 1, 0, 0, 0, 1, 7, 7, 9, 0, 0]) test_context
       = Some (PARSE_ERROR, received [4, 3, 2, 1, 0, 0, 0, 1, 7, 7, 9, 0, 0], test_context, None)
   \<and> length (get_data (received [4, 3, 2, 1, 0, 0, 0, 1, 7, 7, 0, 0])) = 12
   \<and> decrypter_contract (get_crypter test_context)
   \<and> decrypt_read (get_crypter test_context) (get_signer test_context)
        (get_data (received [4, 3, 2, 1, 0, 0, 0, 1, 7, 7, 0, 0]))
       = Some (Some (0x04030201, 1, [7, 7], [0, 0], []))"
proof -
  have bs: "0 < crypter_get_block_size (get_crypter test_context)"
    by (simp add: fixture_defs)
  have dc: "decrypter_contract (get_crypter test_context)"
    by (simp add: test_context_def xor_crypter_contracts)
  have a: "decrypt (received [4, 3, 2, 1, 0, 0, 0, 1, 7, 7, 9, 0, 0]) test_context
       = Some (PARSE_ERROR, (received [4, 3, 2, 1, 0, 0, 0, 1, 7, 7, 9, 0, 0])\<lparr>payload := None\<rparr>,
               test_context, None)"
    using decrypt_length_check [OF bs, of "received [4, 3, 2, 1, 0, 0, 0, 1, 7, 7, 9, 0, 0]"]
    by (simp add: fixture_defs container_defs)
  have b: "\<exists>spi seq iv icv.
             decrypt_read (get_crypter test_context) (get_signer test_context)
               (get_data (received [4, 3, 2, 1, 0, 0, 0, 1, 7, 7, 0, 0]))
             = Some (Some (spi, seq, iv, icv, []))"
    using decrypt_length_check [OF bs, of "received [4, 3, 2, 1, 0, 0, 0, 1, 7, 7, 0, 0]"] dc
    by (simp add: fixture_defs container_defs)
  show ?thesis
    using a b bs dc
    by (simp add: fixture_defs container_defs decrypt_defs reader_defs eval_simps)
qed

text \<open>
  C4 (as the code has it). Whenever decrypt's tail decoding fails (invalid length,
  invalid padding, or an undecodable inner payload), decrypt returns \<open>PARSE_ERROR\<close>
  and the container has no payload. On invalid length and on invalid padding the
  plaintext buffer is released with \<^verbatim>\<open>chunk_free\<close>: it is freed with the
  plaintext bytes still in it, nothing is stored into it.
\<close>

theorem decrypt_tail_failure:
  assumes "decrypt_read (get_crypter ctx) (get_signer ctx) (get_data this)
             = Some (Some (spi, seq, iv, icv, ct))"
    and "verify_seqno ctx seq"
    and "signer_verify_signature (get_signer ctx) (take 8 (get_data this) @ iv @ ct) icv"
    and "crypter_decrypt (get_crypter ctx) ct iv = Some pt"
    and fails: "length pt < 2 \<or> length pt < unat (pt ! (length pt - 2)) + 2
       \<or> \<not> check_padding (take (unat (pt ! (length pt - 2)))
                            (drop (length pt - 2 - unat (pt ! (length pt - 2))) pt))
       \<or> ip_packet_create (take (length pt - 2 - unat (pt ! (length pt - 2))) pt) = None"
  shows "(\<exists>this' buf.
            decrypt this ctx = Some (PARSE_ERROR, this', set_authenticated_seqno ctx seq, Some buf)
            \<and> get_payload this' = None)
       \<and> (length pt < 2 \<or> length pt < unat (pt ! (length pt - 2)) + 2
           \<or> \<not> check_padding (take (unat (pt ! (length pt - 2)))
                                (drop (length pt - 2 - unat (pt ! (length pt - 2))) pt))
          \<longrightarrow> decrypt this ctx
                = Some (PARSE_ERROR, this\<lparr>payload := None\<rparr>, set_authenticated_seqno ctx seq,
                        Some \<lparr>bytes = pt, alloc = Freed\<rparr>))"
  using fails
  by (auto simp: decrypt_tail_stage [OF assms(1-4)] remove_padding_eq get_payload_def)

text \<open>
  The claim as stated fails: on the plaintext of the spec's scenario S6 (pad length 3,
  pad bytes 1, 2, 4) decrypt returns \<open>PARSE_ERROR\<close> and the freed buffer still holds
  the eight plaintext bytes; wiping it with \<^verbatim>\<open>memwipe\<close> would have left zeros.
\<close>

theorem decrypt_plaintext_not_wiped_counterexample:
  "decrypt (received [4, 3, 2, 1, 0, 0, 0, 1, 7, 7,
                      0x1F, 0x5A, 0x53, 0x5B, 0x58, 0x5E, 0x59, 0x5E, 173, 18])
       test_context
     = Some (PARSE_ERROR,
             received [4, 3, 2, 1, 0, 0, 0, 1, 7, 7,
                       0x1F, 0x5A, 0x53, 0x5B, 0x58, 0x5E, 0x59, 0x5E, 173, 18],
             test_context\<lparr>highest := 1, bitmap := 1\<rparr>,
             Some \<lparr>bytes = [0x45, 0, 9, 1, 2, 4, 3, 4], alloc = Freed\<rparr>)
   \<and> memwipe [0x45, 0, 9, 1, 2, 4, 3, 4] 8 = [0, 0, 0, 0, 0, 0, 0, 0]
   \<and> [0x45, 0, 9, 1, 2, 4, 3, 4] \<noteq> memwipe [0x45, 0, 9, 1, 2, 4, 3, 4] 8"
  by (simp add: fixture_defs container_defs window_defs decrypt_defs reader_defs eval_simps
      memwipe_def)

theorem decrypt_tail_failure_witness:
  "decrypt_read (get_crypter test_context) (get_signer test_context)
       (get_data (received [4, 3, 2, 1, 0, 0, 0, 1, 7, 7,
                            0x1F, 0x5A, 0x53, 0x5B, 0x58, 0x5E, 0x59, 0x5E, 173, 18]))
     = Some (Some (0x04030201, 1, [7, 7], [173, 18],
                   [0x1F, 0x5A, 0x53, 0x5B, 0x58, 0x5E, 0x59, 0x5E]))
   \<and> verify_seqno test_context 1
   \<and> crypter_decrypt (get_crypter test_context)
        [0x1F, 0x5A, 0x53, 0x5B, 0x58, 0x5E, 0x59, 0x5E] [7, 7]
       = Some [0x45, 0, 9, 1, 2, 4, 3, 4]
   \<and> \<not> check_padding [1, 2, 4]
   \<and> decrypt (received [4, 3, 2, 1, 0, 0, 0, 1, 7, 7,
                        0x1F, 0x5A, 0x53, 0x5B, 0x58, 0x5E, 0x59, 0x5E, 173, 18])
         test_context
       = Some (PARSE_ERROR,
               (received [4, 3, 2, 1, 0, 0, 0, 1, 7, 7,
                          0x1F, 0x5A, 0x53, 0x5B, 0x58, 0x5E, 0x59, 0x5E, 173, 18])
                 \<lparr>payload := None\<rparr>,
               set_authenticated_seqno test_context 1,
               Some \<lparr>bytes = [0x45, 0, 9, 1, 2, 4, 3, 4], alloc = Freed\<rparr>)"
proof -
  let ?d = "[4, 3, 2, 1, 0, 0, 0, 1, 7, 7,
             0x1F, 0x5A, 0x53, 0x5B, 0x58, 0x5E, 0x59, 0x5E, 173, 18] :: chunk_t"
  let ?ct = "[0x1F, 0x5A, 0x53, 0x5B, 0x58, 0x5E, 0x59, 0x5E] :: chunk_t"
  let ?pt = "[0x45, 0, 9, 1, 2, 4, 3, 4] :: chunk_t"
  have r: "decrypt_read (get_crypter test_context) (get_signer test_context)
             (get_data (received ?d))
           = Some (Some (0x04030201, 1, [7, 7], [173, 18], ?ct))"
    by (simp add: fixture_defs container_defs decrypt_defs reader_defs eval_simps)
  have vs: "verify_seqno test_context 1"
    by (simp add: fixture_defs window_defs)
  have sg: "signer_verify_signature (get_signer test_context)
              (take 8 (get_data (received ?d)) @ [7, 7] @ ?ct) [173, 18]"
    by (simp add: fixture_defs container_defs)
  have dc: "crypter_decrypt (get_crypter test_context) ?ct [7, 7] = Some ?pt"
    by (simp add: fixture_defs)
  have cp: "\<not> check_padding [1, 2, 4]"
    by (simp add: check_padding_def)
  have bad: "length ?pt < 2 \<or> length ?pt < unat (?pt ! (length ?pt - 2)) + 2
       \<or> \<not> check_padding (take (unat (?pt ! (length ?pt - 2)))
                            (drop (length ?pt - 2 - unat (?pt ! (length ?pt - 2))) ?pt))
       \<or> ip_packet_create (take (length ?pt - 2 - unat (?pt ! (length ?pt - 2))) ?pt) = None"
    by (simp add: check_padding_def)
  have "decrypt (received ?d) test_context
       = Some (PARSE_ERROR, (received ?d)\<lparr>payload := None\<rparr>,
               set_authenticated_seqno test_context 1,
               Some \<lparr>bytes = ?pt, alloc = Freed\<rparr>)"
    using decrypt_tail_failure [OF r vs sg dc bad] by (simp add: check_padding_def)
  with r vs dc cp show ?thesis by simp
qed

text \<open>
  C5. For every successful encrypt (with primitives that fill the buffers they are
  given), the emitted datagram is the SPI (4 bytes in network order: the argument is
  the SPI in network order, and its bytes go out as the host stores them), the sequence
  number (4 bytes in network order), the IV, the ciphertext and the ICV, with total
  length \<open>8 + iv_len + plaintext_len + icv_len\<close>; the ICV is the signature over
  exactly the first \<open>8 + iv_len + plaintext_len\<close> bytes, and decrypt verifies the
  trailing ICV over that same region: it returns \<open>FAILED\<close> with the window
  untouched when that verification fails and goes on to commit the sequence number when
  it succeeds.
\<close>

theorem encrypt_datagram_layout:
  assumes enc: "encrypt lib this ctx spi = Some (SUCCESS, this', ctx')"
    and rng: "create_rng lib = Some rng" "rng_contract rng"
    and ip: "crypter_in_place (get_crypter ctx)"
    and ss: "signer_size (get_signer ctx)"
  shows "\<exists>iv ct icv.
           get_data this'
             = be32 (ntohl (little_endian lib) spi) @ be32 (highest ctx + 1) @ iv @ ct @ icv
         \<and> be32 (ntohl (little_endian lib) spi) = host_bytes (little_endian lib) spi
         \<and> length iv = crypter_get_iv_size (get_crypter ctx)
         \<and> length ct = plainlen (crypter_get_block_size (get_crypter ctx))
                          (length (encrypt_payload this))
         \<and> length icv = signer_get_block_size (get_signer ctx)
         \<and> length (get_data this')
             = 8 + crypter_get_iv_size (get_crypter ctx)
               + plainlen (crypter_get_block_size (get_crypter ctx)) (length (encrypt_payload this))
               + signer_get_block_size (get_signer ctx)
         \<and> crypter_encrypt (get_crypter ctx)
              (encrypt_plaintext (crypter_get_block_size (get_crypter ctx))
                 (encrypt_payload this) (next_header this)) iv = Some ct
         \<and> signer_get_signature (get_signer ctx)
              (take (8 + crypter_get_iv_size (get_crypter ctx)
                     + plainlen (crypter_get_block_size (get_crypter ctx))
                         (length (encrypt_payload this)))
                 (get_data this')) = Some icv
         \<and> decrypt_read (get_crypter ctx) (get_signer ctx) (get_data this')
             = Some (Some (ntohl (little_endian lib) spi, highest ctx + 1, iv, icv, ct))
         \<and> take 8 (get_data this') @ iv @ ct
             = take (8 + crypter_get_iv_size (get_crypter ctx)
                     + plainlen (crypter_get_block_size (get_crypter ctx))
                         (length (encrypt_payload this)))
                 (get_data this')
         \<and> (\<forall>that ictx.
               get_data that = get_data this' \<and> get_crypter ictx = get_crypter ctx
               \<and> get_signer ictx = get_signer ctx \<and> verify_seqno ictx (highest ctx + 1)
               \<longrightarrow> (if signer_verify_signature (get_signer ctx)
                          (take (8 + crypter_get_iv_size (get_crypter ctx)
                                 + plainlen (crypter_get_block_size (get_crypter ctx))
                                     (length (encrypt_payload this)))
                             (get_data this')) icv
                    then \<exists>st that' buf.
                           decrypt that ictx
                             = Some (st, that', set_authenticated_seqno ictx (highest ctx + 1), buf)
                    else decrypt that ictx = Some (FAILED, that\<lparr>payload := None\<rparr>, ictx, None)))"
proof -
  let ?cr = "get_crypter ctx" and ?sg = "get_signer ctx"
  let ?n = "plainlen (crypter_get_block_size ?cr) (length (encrypt_payload this))"
  let ?a = "ntohl (little_endian lib) spi" and ?b = "highest ctx + 1"
  from encrypt_success_layout [OF enc rng ip ss]
  obtain iv ct icv where
    d: "get_data this' = be32 ?a @ be32 ?b @ iv @ ct @ icv"
    and liv: "length iv = crypter_get_iv_size ?cr"
    and lct: "length ct = ?n"
    and licv: "length icv = signer_get_block_size ?sg"
    and ct: "crypter_encrypt ?cr
              (encrypt_plaintext (crypter_get_block_size ?cr)
                 (encrypt_payload this) (next_header this)) iv = Some ct"
    and icv: "signer_get_signature ?sg (be32 ?a @ be32 ?b @ iv @ ct) = Some icv"
    and bs: "0 < crypter_get_block_size ?cr"
    by blast
  have len: "length (get_data this')
      = 8 + crypter_get_iv_size ?cr + ?n + signer_get_block_size ?sg"
    by (simp add: d length_be32 liv lct licv)
  have tk: "take (8 + crypter_get_iv_size ?cr + ?n) (get_data this')
              = be32 ?a @ be32 ?b @ iv @ ct"
    by (simp add: d length_be32 liv lct)
  have t8: "take 8 (get_data this') @ iv @ ct = be32 ?a @ be32 ?b @ iv @ ct"
    by (simp add: d length_be32)
  have rd: "decrypt_read ?cr ?sg (get_data this') = Some (Some (?a, ?b, iv, icv, ct))"
    unfolding d
    by (rule decrypt_read_layout) (simp_all add: liv licv bs lct plainlen_mod)
  have dec: "if signer_verify_signature ?sg
                  (take (8 + crypter_get_iv_size ?cr + ?n) (get_data this')) icv
             then \<exists>st that' buf.
                    decrypt that ictx = Some (st, that', set_authenticated_seqno ictx ?b, buf)
             else decrypt that ictx = Some (FAILED, that\<lparr>payload := None\<rparr>, ictx, None)"
    if eq: "get_data that = get_data this'" "get_crypter ictx = ?cr" "get_signer ictx = ?sg"
      and vs: "verify_seqno ictx ?b" for that ictx
  proof -
    have rd': "decrypt_read (get_crypter ictx) (get_signer ictx) (get_data that)
                 = Some (Some (?a, ?b, iv, icv, ct))"
      using rd eq by simp
    show ?thesis
    proof (cases "signer_verify_signature ?sg (be32 ?a @ be32 ?b @ iv @ ct) icv")
      case False
      then have "decrypt that ictx = Some (FAILED, that\<lparr>payload := None\<rparr>, ictx, None)"
        using decrypt_icv_stage [OF rd' vs] eq t8 by simp
      with False show ?thesis by (simp add: tk)
    next
      case True
      then have v: "signer_verify_signature (get_signer ictx) (take 8 (get_data that) @ iv @ ct) icv"
        using eq t8 by simp
      have "\<exists>st that' buf.
              decrypt that ictx = Some (st, that', set_authenticated_seqno ictx ?b, buf)"
      proof (cases "crypter_decrypt (get_crypter ictx) ct iv")
        case None
        with rd' vs v show ?thesis
          by (simp add: decrypt_def Let_def get_data_def)
      next
        case (Some pt)
        show ?thesis
          unfolding decrypt_tail_stage [OF rd' vs v Some]
          by (cases "remove_padding (that\<lparr>payload := None\<rparr>) pt") (auto split: bool.splits)
      qed
      with True show ?thesis by (simp add: tk)
    qed
  qed
  from d liv lct licv len ct icv rd t8 tk dec be32_ntohl [of "little_endian lib" spi]
  show ?thesis
    by (intro exI [of _ iv] exI [of _ ct] exI [of _ icv] conjI allI impI)
      (simp_all only: tk, blast+)
qed

theorem encrypt_datagram_layout_witness:
  "encrypt test_lib sending test_context 0x01020304
     = Some (SUCCESS,
             set_data sending [4, 3, 2, 1, 0, 0, 0, 1, 7, 7,
                               0x1F, 0x5A, 0x5A, 0x5F, 0x53, 0x5B, 0x5B, 0x5E, 178, 18],
             test_context\<lparr>highest := 1\<rparr>)
   \<and> create_rng test_lib = Some sevens_rng
   \<and> rng_contract sevens_rng
   \<and> crypter_in_place (get_crypter test_context)
   \<and> signer_size (get_signer test_context)
   \<and> length [4, 3, 2, 1, 0, 0, 0, 1, 7, 7,
              0x1F, 0x5A, 0x5A, 0x5F, 0x53, 0x5B, 0x5B, 0x5E, 178, 18 :: u_int8_t]
       = 8 + 2 + 8 + 2
   \<and> plainlen 4 5 = 8
   \<and> be32 (ntohl True 0x01020304) = [4, 3, 2, 1]
   \<and> sum_mac [4, 3, 2, 1, 0, 0, 0, 1, 7, 7, 0x1F, 0x5A, 0x5A, 0x5F, 0x53, 0x5B, 0x5B, 0x5E]
       = [178, 18]"
proof -
  let ?d = "[4, 3, 2, 1, 0, 0, 0, 1, 7, 7,
             0x1F, 0x5A, 0x5A, 0x5F, 0x53, 0x5B, 0x5B, 0x5E, 178, 18] :: chunk_t"
  have enc: "encrypt test_lib sending test_context 0x01020304
               = Some (SUCCESS, set_data sending ?d, test_context\<lparr>highest := 1\<rparr>)"
    by (simp add: fixture_defs container_defs window_defs encrypt_defs writer_defs reader_defs
        eval_simps)
  have rng: "create_rng test_lib = Some sevens_rng" by (simp add: test_lib_def)
  have ip: "crypter_in_place (get_crypter test_context)"
    and ss: "signer_size (get_signer test_context)"
    by (simp_all add: test_context_def xor_crypter_contracts sum_signer_contracts)
  from encrypt_datagram_layout [OF enc rng sevens_rng_contract ip ss]
  have "length (get_data (set_data sending ?d))
          = 8 + crypter_get_iv_size (get_crypter test_context)
            + plainlen (crypter_get_block_size (get_crypter test_context))
                (length (encrypt_payload sending))
            + signer_get_block_size (get_signer test_context)"
    by blast
  then have "length ?d = 8 + 2 + 8 + 2"
    by (simp add: fixture_defs container_defs encrypt_payload_def plainlen_def padding_len_def)
  moreover have "plainlen 4 5 = 8"
    by (simp add: plainlen_def padding_len_def)
  moreover have "be32 (ntohl True 0x01020304) = [4, 3, 2, 1]"
    by (simp add: ntohl_def host_bytes_def be32_def from_be32_def)
  moreover have "sum_mac [4, 3, 2, 1, 0, 0, 0, 1, 7, 7,
                          0x1F, 0x5A, 0x5A, 0x5F, 0x53, 0x5B, 0x5B, 0x5E] = [178, 18]"
    by (simp add: sum_mac_def)
  ultimately show ?thesis
    using enc rng sevens_rng_contract ip ss by simp
qed

text \<open>
  C6. For every payload and every block size (a positive one: the code divides by it),
  an encrypt that has obtained its sequence number and its IV computes the pad length
  \<open>blocksize - ((payload_len + 2) mod blocksize)\<close>, which lies in \<open>1..blocksize\<close>;
  the plaintext it hands to the crypter is the payload, the pad bytes, the pad-length
  byte and the next header, of length \<open>payload_len + 2 + pad_length\<close>, a multiple of
  the block size; what encrypt returns is decided by the crypter and the signer on that
  plaintext.
\<close>

theorem padding_law:
  assumes bs: "0 < crypter_get_block_size (get_crypter ctx)"
    and seq: "highest ctx \<noteq> 0xFFFFFFFF"
    and rng: "create_rng lib = Some rng"
    and iv: "rng_get_bytes rng (crypter_get_iv_size (get_crypter ctx)) = Some iv"
  shows "\<exists>pad plain.
           pad = crypter_get_block_size (get_crypter ctx)
                   - ((length (encrypt_payload this) + 2) mod crypter_get_block_size (get_crypter ctx))
         \<and> 1 \<le> pad
         \<and> pad \<le> crypter_get_block_size (get_crypter ctx)
         \<and> plain = encrypt_payload this @ generate_padding pad @ [of_nat pad, next_header this]
         \<and> length plain = length (encrypt_payload this) + 2 + pad
         \<and> length plain mod crypter_get_block_size (get_crypter ctx) = 0
         \<and> encrypt lib this ctx spi =
             (case crypter_encrypt (get_crypter ctx) plain iv of
                None \<Rightarrow> Some (FAILED, set_data this [], ctx\<lparr>highest := highest ctx + 1\<rparr>)
              | Some ct \<Rightarrow>
                  (case signer_get_signature (get_signer ctx)
                          (be32 (ntohl (little_endian lib) spi) @ be32 (highest ctx + 1) @ iv @ ct) of
                     None \<Rightarrow> Some (FAILED, set_data this [], ctx\<lparr>highest := highest ctx + 1\<rparr>)
                   | Some icv \<Rightarrow>
                       Some (SUCCESS,
                             set_data this
                               (be32 (ntohl (little_endian lib) spi) @ be32 (highest ctx + 1)
                                @ iv @ ct @ icv),
                             ctx\<lparr>highest := highest ctx + 1\<rparr>)))"
proof -
  let ?bs = "crypter_get_block_size (get_crypter ctx)"
  let ?n = "length (encrypt_payload this)"
  let ?pad = "padding_len ?bs ?n"
  let ?plain = "encrypt_payload this @ generate_padding ?pad @ [of_nat ?pad, next_header this]"
  have pl: "encrypt_plaintext ?bs (encrypt_payload this) (next_header this) = ?plain"
    by (simp add: encrypt_plaintext_def write_data_def write_uint8_def)
  have len: "length ?plain = ?n + 2 + ?pad"
    by (simp add: length_generate_padding)
  have md: "length ?plain mod ?bs = 0"
    unfolding len using bs by (rule padding_len_mod)
  have enc: "encrypt lib this ctx spi =
             (case crypter_encrypt (get_crypter ctx) ?plain iv of
                None \<Rightarrow> Some (FAILED, set_data this [], ctx\<lparr>highest := highest ctx + 1\<rparr>)
              | Some ct \<Rightarrow>
                  (case signer_get_signature (get_signer ctx)
                          (be32 (ntohl (little_endian lib) spi) @ be32 (highest ctx + 1) @ iv @ ct) of
                     None \<Rightarrow> Some (FAILED, set_data this [], ctx\<lparr>highest := highest ctx + 1\<rparr>)
                   | Some icv \<Rightarrow>
                       Some (SUCCESS,
                             set_data this
                               (be32 (ntohl (little_endian lib) spi) @ be32 (highest ctx + 1)
                                @ iv @ ct @ icv),
                             ctx\<lparr>highest := highest ctx + 1\<rparr>)))"
    using bs seq rng iv
    by (simp add: encrypt_def next_seqno_def Let_def write_uint32_def encrypt_payload_set_data
        next_header_set_data set_data_set_data pl split: option.splits)
  from padding_len_range [OF bs, of ?n] len md enc show ?thesis
    by (intro exI [of _ ?pad] exI [of _ ?plain]) (simp add: padding_len_def)
qed

theorem padding_law_witness:
  "0 < crypter_get_block_size (get_crypter test_context)
   \<and> highest test_context \<noteq> 0xFFFFFFFF
   \<and> create_rng test_lib = Some sevens_rng
   \<and> rng_get_bytes sevens_rng (crypter_get_iv_size (get_crypter test_context)) = Some [7, 7]
   \<and> crypter_get_block_size (get_crypter test_context)
        - ((length (encrypt_payload sending) + 2) mod crypter_get_block_size (get_crypter test_context))
       = 1
   \<and> encrypt_payload sending @ generate_padding 1 @ [of_nat 1, next_header sending]
       = [0x45, 0, 0, 5, 9, 1, 1, 4]
   \<and> encrypt test_lib sending test_context 0x01020304
       = Some (SUCCESS,
               set_data sending [4, 3, 2, 1, 0, 0, 0, 1, 7, 7,
                                 0x1F, 0x5A, 0x5A, 0x5F, 0x53, 0x5B, 0x5B, 0x5E, 178, 18],
               test_context\<lparr>highest := 1\<rparr>)"
proof -
  have bs: "0 < crypter_get_block_size (get_crypter test_context)"
    by (simp add: fixture_defs)
  have seq: "highest test_context \<noteq> 0xFFFFFFFF"
    by (simp add: fixture_defs)
  have rng: "create_rng test_lib = Some sevens_rng"
    by (simp add: fixture_defs)
  have iv: "rng_get_bytes sevens_rng (crypter_get_iv_size (get_crypter test_context)) = Some [7, 7]"
    by (simp add: fixture_defs eval_simps)
  have pad: "crypter_get_block_size (get_crypter test_context)
        - ((length (encrypt_payload sending) + 2) mod crypter_get_block_size (get_crypter test_context))
       = 1"
    by (simp add: fixture_defs container_defs encrypt_payload_def)
  have plain: "encrypt_payload sending @ generate_padding 1 @ [of_nat 1, next_header sending]
       = [0x45, 0, 0, 5, 9, 1, 1, 4]"
    by (simp add: fixture_defs container_defs encrypt_payload_def generate_padding_def eval_simps)
  from padding_law [OF bs seq rng iv, of sending "0x01020304"]
  obtain pad' plain' where
    p1: "pad' = crypter_get_block_size (get_crypter test_context)
        - ((length (encrypt_payload sending) + 2) mod crypter_get_block_size (get_crypter test_context))"
    and p2: "plain' = encrypt_payload sending @ generate_padding pad' @ [of_nat pad', next_header sending]"
    and e: "encrypt test_lib sending test_context 0x01020304 =
             (case crypter_encrypt (get_crypter test_context) plain' [7, 7] of
                None \<Rightarrow> Some (FAILED, set_data sending [],
                               test_context\<lparr>highest := highest test_context + 1\<rparr>)
              | Some ct \<Rightarrow>
                  (case signer_get_signature (get_signer test_context)
                          (be32 (ntohl (little_endian test_lib) 0x01020304)
                           @ be32 (highest test_context + 1) @ [7, 7] @ ct) of
                     None \<Rightarrow> Some (FAILED, set_data sending [],
                                    test_context\<lparr>highest := highest test_context + 1\<rparr>)
                   | Some icv \<Rightarrow>
                       Some (SUCCESS,
                             set_data sending
                               (be32 (ntohl (little_endian test_lib) 0x01020304)
                                @ be32 (highest test_context + 1) @ [7, 7] @ ct @ icv),
                             test_context\<lparr>highest := highest test_context + 1\<rparr>)))"
    by blast
  from p1 pad have "pad' = 1" by simp
  with p2 plain have pl: "plain' = [0x45, 0, 0, 5, 9, 1, 1, 4]" by simp
  have spi: "be32 (ntohl (little_endian test_lib) 0x01020304) = [4, 3, 2, 1]"
    by (simp add: test_lib_def ntohl_def host_bytes_def be32_def from_be32_def)
  have sq: "be32 (highest test_context + 1) = [0, 0, 0, 1]"
    by (simp add: test_context_def be32_def)
  have "encrypt test_lib sending test_context 0x01020304
       = Some (SUCCESS,
               set_data sending [4, 3, 2, 1, 0, 0, 0, 1, 7, 7,
                                 0x1F, 0x5A, 0x5A, 0x5F, 0x53, 0x5B, 0x5B, 0x5E, 178, 18],
               test_context\<lparr>highest := 1\<rparr>)"
    unfolding e pl spi sq
    by (simp add: test_context_def xor_crypter_def sum_signer_def sum_mac_def set_data_def)
  with bs seq rng iv pad plain show ?thesis by simp
qed

text \<open>
  C7. For every decrypted plaintext whose pad bytes deviate in some position from the
  pattern 1, 2, ..., pad_length (the pad byte at 0-based index \<open>i\<close> must equal
  \<open>i + 1\<close>), or whose pad_length + 2 exceeds the plaintext length, decrypt returns
  \<open>PARSE_ERROR\<close>.
\<close>

theorem decrypt_rejects_bad_padding:
  assumes "decrypt_read (get_crypter ctx) (get_signer ctx) (get_data this)
             = Some (Some (spi, seq, iv, icv, ct))"
    and "verify_seqno ctx seq"
    and "signer_verify_signature (get_signer ctx) (take 8 (get_data this) @ iv @ ct) icv"
    and "crypter_decrypt (get_crypter ctx) ct iv = Some pt"
    and bad: "length pt < unat (pt ! (length pt - 2)) + 2
       \<or> (\<exists>i < unat (pt ! (length pt - 2)).
            pt ! (length pt - 2 - unat (pt ! (length pt - 2)) + i) \<noteq> of_nat (i + 1))"
  shows "\<exists>this' ctx' buf. decrypt this ctx = Some (PARSE_ERROR, this', ctx', buf)"
proof -
  have "length pt < 2 \<or> length pt < unat (pt ! (length pt - 2)) + 2
      \<or> \<not> check_padding (take (unat (pt ! (length pt - 2)))
                           (drop (length pt - 2 - unat (pt ! (length pt - 2))) pt))"
    using bad bad_pad_byte [of "unat (pt ! (length pt - 2))" pt] by fastforce
  then have "remove_padding (this\<lparr>payload := None\<rparr>) pt
               = (False, this\<lparr>payload := None\<rparr>, \<lparr>bytes = pt, alloc = Freed\<rparr>)"
    by (simp only: remove_padding_eq if_True)
  then show ?thesis
    by (simp add: decrypt_tail_stage [OF assms(1-4)])
qed

theorem decrypt_rejects_bad_padding_witness:
  "decrypt_read (get_crypter test_context) (get_signer test_context)
       (get_data (received [4, 3, 2, 1, 0, 0, 0, 1, 7, 7,
                            0x1F, 0x5A, 0x5A, 0x5F, 0x53, 0x58, 0x5B, 0x5E, 175, 18]))
     = Some (Some (0x04030201, 1, [7, 7], [175, 18],
                   [0x1F, 0x5A, 0x5A, 0x5F, 0x53, 0x58, 0x5B, 0x5E]))
   \<and> verify_seqno test_context 1
   \<and> crypter_decrypt (get_crypter test_context)
        [0x1F, 0x5A, 0x5A, 0x5F, 0x53, 0x58, 0x5B, 0x5E] [7, 7]
       = Some [0x45, 0, 0, 5, 9, 2, 1, 4]
   \<and> unat ([0x45, 0, 0, 5, 9, 2, 1, 4 :: u_int8_t] ! 6) = 1
   \<and> [0x45, 0, 0, 5, 9, 2, 1, 4 :: u_int8_t] ! 5 \<noteq> of_nat (0 + 1)
   \<and> map_option fst
        (decrypt (received [4, 3, 2, 1, 0, 0, 0, 1, 7, 7,
                            0x1F, 0x5A, 0x5A, 0x5F, 0x53, 0x58, 0x5B, 0x5E, 175, 18])
           test_context)
       = Some PARSE_ERROR"
proof -
  let ?d = "[4, 3, 2, 1, 0, 0, 0, 1, 7, 7,
             0x1F, 0x5A, 0x5A, 0x5F, 0x53, 0x58, 0x5B, 0x5E, 175, 18] :: chunk_t"
  let ?ct = "[0x1F, 0x5A, 0x5A, 0x5F, 0x53, 0x58, 0x5B, 0x5E] :: chunk_t"
  let ?pt = "[0x45, 0, 0, 5, 9, 2, 1, 4] :: chunk_t"
  have r: "decrypt_read (get_crypter test_context) (get_signer test_context)
             (get_data (received ?d))
           = Some (Some (0x04030201, 1, [7, 7], [175, 18], ?ct))"
    by (simp add: fixture_defs container_defs decrypt_defs reader_defs eval_simps)
  have vs: "verify_seqno test_context 1"
    by (simp add: fixture_defs window_defs)
  have sg: "signer_verify_signature (get_signer test_context)
              (take 8 (get_data (received ?d)) @ [7, 7] @ ?ct) [175, 18]"
    by (simp add: fixture_defs container_defs)
  have dc: "crypter_decrypt (get_crypter test_context) ?ct [7, 7] = Some ?pt"
    by (simp add: fixture_defs)
  have bad: "length ?pt < unat (?pt ! (length ?pt - 2)) + 2
       \<or> (\<exists>i < unat (?pt ! (length ?pt - 2)).
            ?pt ! (length ?pt - 2 - unat (?pt ! (length ?pt - 2)) + i) \<noteq> of_nat (i + 1))"
    by simp
  from decrypt_rejects_bad_padding [OF r vs sg dc bad]
  have "map_option fst (decrypt (received ?d) test_context) = Some PARSE_ERROR"
    by auto
  with r vs dc show ?thesis by simp
qed

text \<open>
  C8. encrypt returns \<open>FAILED\<close> when the sequence cursor has cycled (its highest
  number is \<open>0xFFFFFFFF\<close>); otherwise \<open>NOT_FOUND\<close> when no random number generator
  is available; otherwise \<open>FAILED\<close> when the generator does not deliver the bytes of
  the IV. In each case no datagram is emitted: the container's data is empty.
\<close>

theorem encrypt_early_failures:
  "(highest ctx = 0xFFFFFFFF \<longrightarrow>
      encrypt lib this ctx spi = Some (FAILED, set_data this [], ctx))
   \<and> (highest ctx \<noteq> 0xFFFFFFFF \<and> create_rng lib = None \<longrightarrow>
      encrypt lib this ctx spi
        = Some (NOT_FOUND, set_data this [], ctx\<lparr>highest := highest ctx + 1\<rparr>))
   \<and> (highest ctx \<noteq> 0xFFFFFFFF \<and> create_rng lib = Some rng
       \<and> 0 < crypter_get_block_size (get_crypter ctx)
       \<and> rng_get_bytes rng (crypter_get_iv_size (get_crypter ctx)) = None \<longrightarrow>
      encrypt lib this ctx spi
        = Some (FAILED, set_data this [], ctx\<lparr>highest := highest ctx + 1\<rparr>))
   \<and> get_data (set_data this []) = []"
  using encrypt_cycled [of ctx lib this spi] encrypt_no_rng [of ctx lib this spi]
    encrypt_rng_fails [of ctx lib rng this spi]
  by (simp add: get_data_set_data)

theorem encrypt_early_failures_witness:
  "highest (test_context\<lparr>highest := 0xFFFFFFFF\<rparr>) = 0xFFFFFFFF
   \<and> encrypt test_lib sending (test_context\<lparr>highest := 0xFFFFFFFF\<rparr>) 0x01020304
       = Some (FAILED, set_data sending [], test_context\<lparr>highest := 0xFFFFFFFF\<rparr>)
   \<and> highest test_context \<noteq> 0xFFFFFFFF
   \<and> create_rng (test_lib\<lparr>create_rng := None\<rparr>) = None
   \<and> encrypt (test_lib\<lparr>create_rng := None\<rparr>) sending test_context 0x01020304
       = Some (NOT_FOUND, set_data sending [], test_context\<lparr>highest := 1\<rparr>)
   \<and> create_rng (test_lib\<lparr>create_rng := Some failing_rng\<rparr>) = Some failing_rng
   \<and> 0 < crypter_get_block_size (get_crypter test_context)
   \<and> rng_get_bytes failing_rng (crypter_get_iv_size (get_crypter test_context)) = None
   \<and> encrypt (test_lib\<lparr>create_rng := Some failing_rng\<rparr>) sending test_context 0x01020304
       = Some (FAILED, set_data sending [], test_context\<lparr>highest := 1\<rparr>)
   \<and> get_data (set_data sending []) = []"
  using encrypt_early_failures
      [of "test_context\<lparr>highest := 0xFFFFFFFF\<rparr>" test_lib sending "0x01020304" failing_rng]
    encrypt_early_failures
      [of test_context "test_lib\<lparr>create_rng := None\<rparr>" sending "0x01020304" failing_rng]
    encrypt_early_failures
      [of test_context "test_lib\<lparr>create_rng := Some failing_rng\<rparr>" sending "0x01020304"
          failing_rng]
  by (simp add: test_context_def test_lib_def xor_crypter_def failing_rng_def)

text \<open>
  C9. encrypt replaces the container's raw data with the empty chunk before anything
  else; whenever it returns a status other than \<open>SUCCESS\<close>, the container is the
  one it was given with its data emptied, so its raw byte buffer is empty.
\<close>

theorem encrypt_failure_leaves_empty_data:
  assumes "encrypt lib this esp_context spi = Some (st, this', esp_context')"
    and "st \<noteq> SUCCESS"
  shows "this' = set_data this [] \<and> get_data this' = []"
  using encrypt_not_success [OF assms] by (simp add: get_data_set_data)

theorem encrypt_failure_leaves_empty_data_witness:
  "encrypt (test_lib\<lparr>create_rng := None\<rparr>) sending test_context 0x01020304
     = Some (NOT_FOUND, set_data sending [], test_context\<lparr>highest := 1\<rparr>)
   \<and> NOT_FOUND \<noteq> SUCCESS
   \<and> get_data sending = [1, 2, 3]
   \<and> get_data (set_data sending []) = []"
proof -
  have h: "encrypt (test_lib\<lparr>create_rng := None\<rparr>) sending test_context 0x01020304
             = Some (NOT_FOUND, set_data sending [], test_context\<lparr>highest := 1\<rparr>)"
    by (simp add: fixture_defs container_defs window_defs encrypt_defs eval_simps)
  have "get_data (set_data sending []) = []"
    using encrypt_failure_leaves_empty_data [OF h] by simp
  with h show ?thesis
    by (simp add: fixture_defs container_defs)
qed

text \<open>
  C10. decrypt first sets the container's payload to none; after a decrypt that
  returns any status other than \<open>SUCCESS\<close>, \<open>get_payload\<close> returns none.
\<close>

theorem decrypt_failure_leaves_no_payload:
  assumes "decrypt this esp_context = Some (st, this', esp_context', buf)"
    and "st \<noteq> SUCCESS"
  shows "get_payload this' = None"
  using decrypt_not_success [OF assms] by (simp add: get_payload_def)

theorem decrypt_failure_leaves_no_payload_witness:
  "decrypt ((received [4, 3, 2, 1, 0, 0, 0, 1, 7, 7, 0, 0])\<lparr>payload := Some test_payload\<rparr>)
       test_context
     = Some (FAILED, received [4, 3, 2, 1, 0, 0, 0, 1, 7, 7, 0, 0], test_context, None)
   \<and> FAILED \<noteq> SUCCESS
   \<and> get_payload (received [4, 3, 2, 1, 0, 0, 0, 1, 7, 7, 0, 0]) = None"
proof -
  have h: "decrypt ((received [4, 3, 2, 1, 0, 0, 0, 1, 7, 7, 0, 0])\<lparr>payload := Some test_payload\<rparr>)
               test_context
             = Some (FAILED, received [4, 3, 2, 1, 0, 0, 0, 1, 7, 7, 0, 0], test_context, None)"
    by (simp add: fixture_defs container_defs window_defs decrypt_defs reader_defs eval_simps)
  have "get_payload (received [4, 3, 2, 1, 0, 0, 0, 1, 7, 7, 0, 0]) = None"
    using decrypt_failure_leaves_no_payload [OF h] by simp
  with h show ?thesis by simp
qed

end
